theory Spec2Isabelle
  imports Complex_Main "HOL-Library.Sublist" "HOL-Library.Multiset" "HOL-Library.Log_Nat"
begin

section \<open>AbodeX backend: booking, review, ranking and authentication logic\<close>

text \<open>
  A shallow embedding of the route handlers of the AbodeX backend (guest routes, the
  admin host listing, the authentication middleware and the services they call).

  Conventions of the embedding:
  \<^item> a JavaScript \<^verbatim>\<open>Date\<close> is its time value, an \<open>int\<close> of milliseconds since the
    epoch; only valid dates are represented;
  \<^item> a JavaScript \<^verbatim>\<open>Number\<close> is the \<open>rat\<close> it denotes; the arithmetic of prices
    rounds every result to the nearest double, ties to even (\<open>round64\<close>), while
    \<^verbatim>\<open>NaN\<close>, infinities and overflow are not represented;
  \<^item> a document identifier (\<^verbatim>\<open>_id\<close>, and its string form \<^verbatim>\<open>id\<close>) is a \<open>nat\<close>;
  \<^item> a collection of the document store is the list of its documents, a query
    returning one document is \<open>List.find\<close>;
  \<^item> a thrown \<^verbatim>\<open>Error\<close> is \<open>Inl\<close> of its message, so a service call returns
    \<open>string + 'a\<close>;
  \<^item> \<^verbatim>\<open>console.error\<close> appends to the \<open>console\<close> field of the state.
\<close>

subsection \<open>Documents\<close>

type_synonym objectId = nat
type_synonym date = int

text \<open>\<^verbatim>\<open>models/Property.js\<close>: the entries of \<^verbatim>\<open>availability\<close> and \<^verbatim>\<open>discounts\<close>.\<close>

record availabilityEntry =
  startDate :: date
  endDate :: date
  isAvailable :: bool

record discount =
  d_name :: string
  discountType :: string
  d_value :: rat
  minNights :: "rat option"
  validFrom :: date
  validUntil :: date

record property =
  p_id :: objectId
  p_host :: objectId
  title :: string
  pricePerNight :: rat
  maxGuests :: int
  availability :: "availabilityEntry list"
  discounts :: "discount list"
  isActive :: bool

text \<open>\<^verbatim>\<open>models/Booking.js\<close>; \<open>status\<close> and \<open>paymentStatus\<close> default to \<^verbatim>\<open>"pending"\<close>.\<close>

record booking =
  b_id :: objectId
  b_guest :: objectId
  b_property :: objectId
  checkIn :: date
  checkOut :: date
  guestsCount :: int
  totalAmount :: rat
  discountAmount :: rat
  status :: string
  paymentStatus :: string
  paymentIntentId :: string
  transactionId :: "string option"
  specialRequests :: "string option"

text \<open>\<^verbatim>\<open>models/Review.js\<close>.\<close>

record review =
  r_id :: objectId
  r_guest :: objectId
  r_property :: objectId
  r_booking :: objectId
  rating :: int
  comment :: string
  hostReply :: "string option"

text \<open>\<^verbatim>\<open>models/Host.js\<close>; \<open>hostTag\<close> is \<^verbatim>\<open>null\<close> or one of the three tags.\<close>

record host =
  h_id :: objectId
  h_user :: objectId
  isVerified :: bool
  earnings :: rat
  totalBookings :: int
  hostTag :: "string option"

text \<open>The fields of a user document that the handlers read or write.\<close>

record user =
  u_id :: objectId
  email :: string
  password :: string
  firstName :: string
  lastName :: string
  phone :: string
  role :: string
  verificationToken :: "string option"
  resetPasswordToken :: "string option"
  resetPasswordExpires :: "int option"

text \<open>The document store, the identifier source and the console.\<close>

record state =
  users :: "user list"
  hosts :: "host list"
  properties :: "property list"
  bookings :: "booking list"
  reviews :: "review list"
  nextId :: objectId
  console :: "string list"

datatype body =
    Message string
  | ValidationErrors
  | BookingCreated booking string
  | BookingConfirmed string booking
  | ReviewCreated review
  | TokenIssued string user

datatype response = Response nat body

fun statusCode :: "response \<Rightarrow> nat" where
  "statusCode (Response c b) = c"

definition consoleError :: "string \<Rightarrow> state \<Rightarrow> state" where
  "consoleError msg s = s\<lparr>console := console s @ [msg]\<rparr>"

text \<open>
  The closing \<^verbatim>\<open>catch (error)\<close> of every handler:
  \<^verbatim>\<open>console.error(error); res.status(500).json({ message: "Server error" })\<close>.
\<close>

definition serverError :: "string \<Rightarrow> state \<Rightarrow> response \<times> state" where
  "serverError err s = (Response 500 (Message ''Server error''), consoleError err s)"

subsection \<open>Numbers\<close>

text \<open>
  A finite double is a rational \<open>m * 2 ^ k\<close> with \<open>\<bar>m\<bar> < 2 ^ 53\<close> and \<open>k \<ge> -1074\<close>.
  \<open>expo x\<close> is the binary exponent of a positive \<open>x\<close> (the \<open>e\<close> with
  \<open>2 ^ e \<le> x < 2 ^ (e + 1)\<close>), \<open>ulp x\<close> the distance of the doubles around \<open>x\<close> (with
  gradual underflow below \<open>2 ^ -1022\<close>), and \<open>round64\<close> rounds to the nearest double,
  ties to the even significand. The operators \<^verbatim>\<open>*\<close>, \<^verbatim>\<open>/\<close> and \<^verbatim>\<open>-\<close> on numbers
  are \<open>times64\<close>, \<open>divide64\<close> and \<open>minus64\<close>.
\<close>

definition expo :: "rat \<Rightarrow> int" where
  "expo x = (case quotient_of x of (a, b) \<Rightarrow>
      (let k = bitlen a - bitlen b in if 2 powi k \<le> x then k else k - 1))"

definition roundEven :: "rat \<Rightarrow> int" where
  "roundEven q =
     (let f = floor q; d = q - of_int f
      in if d < 1 / 2 then f else if 1 / 2 < d then f + 1 else if even f then f else f + 1)"

definition ulp :: "rat \<Rightarrow> rat" where
  "ulp x = 2 powi (max (expo \<bar>x\<bar>) (- 1022) - 52)"

definition round64 :: "rat \<Rightarrow> rat" where
  "round64 x =
     (if x = 0 then 0 else sgn x * (of_int (roundEven (\<bar>x\<bar> / ulp x)) * ulp x))"

definition times64 :: "rat \<Rightarrow> rat \<Rightarrow> rat" where "times64 a b = round64 (a * b)"
definition divide64 :: "rat \<Rightarrow> rat \<Rightarrow> rat" where "divide64 a b = round64 (a / b)"
definition minus64 :: "rat \<Rightarrow> rat \<Rightarrow> rat" where "minus64 a b = round64 (a - b)"

subsection \<open>Booking price and discount (guest routes, POST /bookings)\<close>

text \<open>
  \<^verbatim>\<open>const nights = Math.ceil(
      (new Date(checkOut) - new Date(checkIn)) / (1000 * 60 * 60 * 24));\<close>
\<close>

definition nights :: "date \<Rightarrow> date \<Rightarrow> int" where
  "nights ci co = ceiling ((of_int (co - ci) :: rat) / (1000 * 60 * 60 * 24))"

text \<open>
  \<^verbatim>\<open>property.discounts.filter((d) =>
      new Date(d.validFrom) <= new Date(checkIn) &&
      new Date(d.validUntil) >= new Date(checkOut) &&
      (!d.minNights || nights >= d.minNights))\<close>
  \<^verbatim>\<open>!d.minNights\<close> holds for a missing \<^verbatim>\<open>minNights\<close> and for \<^verbatim>\<open>0\<close>.
\<close>

definition applicable :: "date \<Rightarrow> date \<Rightarrow> int \<Rightarrow> discount \<Rightarrow> bool" where
  "applicable ci co n d \<longleftrightarrow>
     validFrom d \<le> ci \<and> validUntil d \<ge> co \<and>
     (case minNights d of None \<Rightarrow> True | Some m \<Rightarrow> m = 0 \<or> of_int n \<ge> m)"

definition applicableDiscounts :: "property \<Rightarrow> date \<Rightarrow> date \<Rightarrow> discount list" where
  "applicableDiscounts p ci co = filter (applicable ci co (nights ci co)) (discounts p)"

text \<open>
  The amount of one discount, the expression the handler writes three times:
  \<^verbatim>\<open>d.discountType === "percentage" ? (totalAmount * d.value) / 100 : d.value\<close>.
\<close>

definition amountOf :: "rat \<Rightarrow> discount \<Rightarrow> rat" where
  "amountOf tot d =
     (if discountType d = ''percentage'' then divide64 (times64 tot (d_value d)) 100
      else d_value d)"

text \<open>
  The callback of \<^verbatim>\<open>applicableDiscounts.reduce((prev, current) => ... ? current : prev)\<close>
  and the reduction without an initial value, which starts from the first element.
\<close>

definition pick :: "rat \<Rightarrow> discount \<Rightarrow> discount \<Rightarrow> discount" where
  "pick tot prev current =
     (if amountOf tot current > amountOf tot prev then current else prev)"

fun bestDiscount :: "rat \<Rightarrow> discount list \<Rightarrow> discount option" where
  "bestDiscount tot [] = None"
| "bestDiscount tot (d # ds) = Some (foldl (pick tot) d ds)"

text \<open>
  Lines 150 to 183 of the handler: the pair \<open>(totalAmount, discountAmount)\<close> that is
  passed on to the payment intent and stored in the booking.
\<close>

definition bookingPrice :: "property \<Rightarrow> date \<Rightarrow> date \<Rightarrow> rat \<times> rat" where
  "bookingPrice p ci co =
     (let tot = times64 (of_int (nights ci co)) (pricePerNight p)
      in case bestDiscount tot (applicableDiscounts p ci co) of
           None \<Rightarrow> (tot, 0)
         | Some best \<Rightarrow>
             (let amount = amountOf tot best in (minus64 tot amount, amount)))"

subsection \<open>External collaborators and services\<close>

record paymentIntent =
  pi_id :: string
  client_secret :: string
  pi_status :: string

text \<open>
  What the SMS and mail templates are filled with; the rendering of the text itself is
  left to the collaborator.
\<close>

datatype sms = BookingConfirmationSms string date date rat

datatype mail = VerificationMail string string | PasswordResetMail string string

text \<open>
  The libraries behind the services: the payment gateway client, the SMS client, the mail
  transport, the token library and the e-mail validator. Each call either throws
  (\<open>Inl\<close>) or returns. \<open>jwtVerify\<close> returns the \<^verbatim>\<open>id\<close> of the decoded payload, when
  the payload has one.
\<close>

record externals =
  stripeCreate :: "int \<Rightarrow> string \<Rightarrow> string + paymentIntent"
  stripeRetrieve :: "string \<Rightarrow> string + paymentIntent"
  twilioCreate :: "string \<Rightarrow> sms \<Rightarrow> string + unit"
  sendMail :: "string \<Rightarrow> mail \<Rightarrow> string + unit"
  jwtVerify :: "string \<Rightarrow> string \<Rightarrow> string + objectId option"
  jwtSign :: "objectId \<Rightarrow> string \<Rightarrow> string"
  isEmail :: "string \<Rightarrow> bool"

record env =
  JWT_SECRET :: string
  JWT_ADMIN_SECRET :: string

text \<open>
  \<^verbatim>\<open>services/paymentService.js\<close>: a gateway error is logged and replaced by a fixed error.
  \<^verbatim>\<open>Math.round(amount * 100)\<close> rounds the double product half up.
\<close>

definition createPaymentIntent ::
  "externals \<Rightarrow> rat \<Rightarrow> string \<Rightarrow> state \<Rightarrow> (string + paymentIntent) \<times> state" where
  "createPaymentIntent x amount currency s =
     (case stripeCreate x (floor (times64 amount 100 + 1 / 2)) currency of
        Inl e \<Rightarrow> (Inl ''Payment processing failed'', consoleError (''Stripe error: '' @ e) s)
      | Inr intent \<Rightarrow> (Inr intent, s))"

definition confirmPaymentIntent ::
  "externals \<Rightarrow> string \<Rightarrow> state \<Rightarrow> (string + paymentIntent) \<times> state" where
  "confirmPaymentIntent x intentId s =
     (case stripeRetrieve x intentId of
        Inl e \<Rightarrow> (Inl ''Payment confirmation failed'', consoleError (''Stripe error: '' @ e) s)
      | Inr intent \<Rightarrow> (Inr intent, s))"

text \<open>\<^verbatim>\<open>services/smsService.js\<close>: \<^verbatim>\<open>sendSMS\<close> and \<^verbatim>\<open>sendBookingConfirmation\<close>.\<close>

definition sendSMS :: "externals \<Rightarrow> string \<Rightarrow> sms \<Rightarrow> state \<Rightarrow> (string + unit) \<times> state" where
  "sendSMS x to message s =
     (case twilioCreate x to message of
        Inl e \<Rightarrow> (Inl ''Failed to send SMS'', consoleError (''Twilio error: '' @ e) s)
      | Inr r \<Rightarrow> (Inr r, s))"

definition sendBookingConfirmation ::
  "externals \<Rightarrow> string \<Rightarrow> string \<Rightarrow> date \<Rightarrow> date \<Rightarrow> rat \<Rightarrow> state \<Rightarrow> (string + unit) \<times> state" where
  "sendBookingConfirmation x ph propertyTitle ci co amount s =
     sendSMS x ph (BookingConfirmationSms propertyTitle ci co amount) s"

text \<open>\<^verbatim>\<open>services/emailService.js\<close>: the transport's error is not caught.\<close>

definition sendVerificationEmail :: "externals \<Rightarrow> string \<Rightarrow> string \<Rightarrow> string \<Rightarrow> string + unit" where
  "sendVerificationEmail x addr token fname = sendMail x addr (VerificationMail token fname)"

definition sendPasswordResetEmail :: "externals \<Rightarrow> string \<Rightarrow> string \<Rightarrow> string \<Rightarrow> string + unit" where
  "sendPasswordResetEmail x addr token fname = sendMail x addr (PasswordResetMail token fname)"

subsection \<open>Document store operations\<close>

text \<open>Saving a loaded document and \<^verbatim>\<open>findByIdAndUpdate\<close> write the first match.\<close>

fun updateFirst :: "('a \<Rightarrow> bool) \<Rightarrow> ('a \<Rightarrow> 'a) \<Rightarrow> 'a list \<Rightarrow> 'a list" where
  "updateFirst P f [] = []"
| "updateFirst P f (d # ds) = (if P d then f d # ds else d # updateFirst P f ds)"

subsection \<open>Guest routes: POST /bookings\<close>

text \<open>
  A request body as the validators see it: \<open>None\<close> is a field that is missing or not of
  the format the validator asks for (\<^verbatim>\<open>isMongoId\<close>, \<^verbatim>\<open>isISO8601\<close>, \<^verbatim>\<open>isInt\<close>).
\<close>

record bookingBody =
  bb_propertyId :: "objectId option"
  bb_checkIn :: "date option"
  bb_checkOut :: "date option"
  bb_guestsCount :: "int option"
  bb_specialRequests :: "string option"

definition validBookingBody :: "bookingBody \<Rightarrow> bool" where
  "validBookingBody rb \<longleftrightarrow>
     bb_propertyId rb \<noteq> None \<and> bb_checkIn rb \<noteq> None \<and> bb_checkOut rb \<noteq> None \<and>
     (case bb_guestsCount rb of None \<Rightarrow> False | Some g \<Rightarrow> g \<ge> 1)"

definition newBooking ::
  "objectId \<Rightarrow> user \<Rightarrow> bookingBody \<Rightarrow> rat \<Rightarrow> rat \<Rightarrow> paymentIntent \<Rightarrow> booking" where
  "newBooking i u rb tot disc intent =
     \<lparr> b_id = i, b_guest = u_id u, b_property = the (bb_propertyId rb),
       checkIn = the (bb_checkIn rb), checkOut = the (bb_checkOut rb),
       guestsCount = the (bb_guestsCount rb),
       totalAmount = tot, discountAmount = disc,
       status = ''pending'', paymentStatus = ''pending'',
       paymentIntentId = pi_id intent, transactionId = None,
       specialRequests = bb_specialRequests rb \<rparr>"

definition createBooking :: "externals \<Rightarrow> user \<Rightarrow> bookingBody \<Rightarrow> state \<Rightarrow> response \<times> state" where
  "createBooking x u rb s =
     (if \<not> validBookingBody rb then (Response 400 ValidationErrors, s)
      else case find (\<lambda>p. p_id p = the (bb_propertyId rb)) (properties s) of
          None \<Rightarrow> (Response 404 (Message ''Property not found''), s)
        | Some p \<Rightarrow>
            (case bookingPrice p (the (bb_checkIn rb)) (the (bb_checkOut rb)) of
               (tot, disc) \<Rightarrow>
                 (case createPaymentIntent x tot ''usd'' s of
                    (Inl e, s1) \<Rightarrow> serverError e s1
                  | (Inr intent, s1) \<Rightarrow>
                      (let b = newBooking (nextId s1) u rb tot disc intent
                       in (Response 200 (BookingCreated b (client_secret intent)),
                           s1\<lparr>bookings := bookings s1 @ [b], nextId := Suc (nextId s1)\<rparr>)))))"

subsection \<open>Guest routes: POST /bookings/:id/confirm\<close>

text \<open>
  \<open>bid\<close> is the route parameter, \<open>None\<close> when it is not an object id (the query then
  throws). The booking is loaded with its property populated; when the property is gone
  the populated field is \<^verbatim>\<open>null\<close> and reading its \<^verbatim>\<open>_id\<close> throws, after the booking
  has been saved.
\<close>

definition unavailable :: "booking \<Rightarrow> availabilityEntry" where
  "unavailable b = \<lparr> startDate = checkIn b, endDate = checkOut b, isAvailable = False \<rparr>"

definition pushAvailability :: "availabilityEntry \<Rightarrow> property \<Rightarrow> property" where
  "pushAvailability e p = p\<lparr>availability := availability p @ [e]\<rparr>"

definition confirmBooking :: "externals \<Rightarrow> user \<Rightarrow> objectId option \<Rightarrow> state \<Rightarrow> response \<times> state" where
  "confirmBooking x u bid s =
     (case bid of
        None \<Rightarrow> serverError ''CastError'' s
      | Some i \<Rightarrow>
     (case find (\<lambda>b. b_id b = i) (bookings s) of
        None \<Rightarrow> (Response 404 (Message ''Booking not found''), s)
      | Some b0 \<Rightarrow>
          if b_guest b0 \<noteq> u_id u then (Response 404 (Message ''Booking not found''), s)
          else
            (case confirmPaymentIntent x (paymentIntentId b0) s of
               (Inl e, s1) \<Rightarrow> serverError e s1
             | (Inr intent, s1) \<Rightarrow>
                 if pi_status intent = ''succeeded'' then
                   (let b = b0\<lparr>status := ''confirmed'', paymentStatus := ''paid'',
                                 transactionId := Some (pi_id intent)\<rparr>;
                        s2 = s1\<lparr>bookings := updateFirst (\<lambda>d. b_id d = b_id b) (\<lambda>d. b) (bookings s1)\<rparr>
                    in case find (\<lambda>p. p_id p = b_property b0) (properties s) of
                         None \<Rightarrow> serverError ''TypeError'' s2
                       | Some p \<Rightarrow>
                           (let s3 = s2\<lparr>properties :=
                                  updateFirst (\<lambda>d. p_id d = p_id p) (pushAvailability (unavailable b))
                                    (properties s2)\<rparr>;
                                s4 = (case sendBookingConfirmation x (phone u) (title p)
                                             (checkIn b) (checkOut b) (totalAmount b) s3 of
                                        (Inl smsError, s') \<Rightarrow>
                                          consoleError (''SMS sending failed: '' @ smsError) s'
                                      | (Inr r, s') \<Rightarrow> s')
                            in (Response 200 (BookingConfirmed ''Booking confirmed successfully'' b), s4)))
                 else (Response 400 (Message ''Payment failed''), s1))))"

subsection \<open>Guest routes: POST /reviews\<close>

record reviewBody =
  rb_bookingId :: "objectId option"
  rb_propertyId :: "objectId option"
  rb_rating :: "int option"
  rb_comment :: string

definition validReviewBody :: "reviewBody \<Rightarrow> bool" where
  "validReviewBody rb \<longleftrightarrow>
     rb_bookingId rb \<noteq> None \<and> rb_propertyId rb \<noteq> None \<and>
     (case rb_rating rb of None \<Rightarrow> False | Some r \<Rightarrow> 1 \<le> r \<and> r \<le> 5) \<and>
     length (rb_comment rb) \<ge> 10"

definition newReview :: "objectId \<Rightarrow> user \<Rightarrow> reviewBody \<Rightarrow> review" where
  "newReview i u rb =
     \<lparr> r_id = i, r_guest = u_id u, r_property = the (rb_propertyId rb),
       r_booking = the (rb_bookingId rb), rating = the (rb_rating rb),
       comment = rb_comment rb, hostReply = None \<rparr>"

definition createReview :: "user \<Rightarrow> reviewBody \<Rightarrow> state \<Rightarrow> response \<times> state" where
  "createReview u rb s =
     (if \<not> validReviewBody rb then (Response 400 ValidationErrors, s)
      else case find (\<lambda>b. b_id b = the (rb_bookingId rb) \<and> b_guest b = u_id u \<and>
                            b_property b = the (rb_propertyId rb) \<and> status b = ''completed'')
                  (bookings s) of
          None \<Rightarrow> (Response 404 (Message ''Valid booking not found''), s)
        | Some b \<Rightarrow>
            (case find (\<lambda>r. r_booking r = the (rb_bookingId rb)) (reviews s) of
               Some existingReview \<Rightarrow>
                 (Response 400 (Message ''Review already exists for this booking''), s)
             | None \<Rightarrow>
                 (let r = newReview (nextId s) u rb
                  in (Response 201 (ReviewCreated r),
                      s\<lparr>reviews := reviews s @ [r], nextId := Suc (nextId s)\<rparr>))))"

text \<open>
  The handler awaits the store three times: \<^verbatim>\<open>Booking.findOne\<close>, \<^verbatim>\<open>Review.findOne\<close> and
  \<^verbatim>\<open>review.save\<close>. Each is one operation on the store, and between two of them the
  runtime may run other requests. \<open>reviewStep\<close> is the handler from one await to the
  next; \<open>interleave\<close> runs several requests, the schedule naming the request that
  advances.
\<close>

datatype reviewTask = AwaitBooking | AwaitReview | AwaitSave | Replied response

fun reviewStep :: "user \<Rightarrow> reviewBody \<Rightarrow> reviewTask \<Rightarrow> state \<Rightarrow> reviewTask \<times> state" where
  "reviewStep u rb AwaitBooking s =
     (if \<not> validReviewBody rb then (Replied (Response 400 ValidationErrors), s)
      else case find (\<lambda>b. b_id b = the (rb_bookingId rb) \<and> b_guest b = u_id u \<and>
                            b_property b = the (rb_propertyId rb) \<and> status b = ''completed'')
                  (bookings s) of
          None \<Rightarrow> (Replied (Response 404 (Message ''Valid booking not found'')), s)
        | Some b \<Rightarrow> (AwaitReview, s))"
| "reviewStep u rb AwaitReview s =
     (case find (\<lambda>r. r_booking r = the (rb_bookingId rb)) (reviews s) of
        Some existingReview \<Rightarrow>
          (Replied (Response 400 (Message ''Review already exists for this booking'')), s)
      | None \<Rightarrow> (AwaitSave, s))"
| "reviewStep u rb AwaitSave s =
     (let r = newReview (nextId s) u rb
      in (Replied (Response 201 (ReviewCreated r)),
          s\<lparr>reviews := reviews s @ [r], nextId := Suc (nextId s)\<rparr>))"
| "reviewStep u rb (Replied r) s = (Replied r, s)"

type_synonym reviewRequest = "user \<times> reviewBody \<times> reviewTask"

definition advance :: "nat \<Rightarrow> reviewRequest list \<Rightarrow> state \<Rightarrow> reviewRequest list \<times> state" where
  "advance k rs s =
     (if k < length rs
      then (case rs ! k of
              (u, rb, t) \<Rightarrow> (case reviewStep u rb t s of (t', s') \<Rightarrow> (rs[k := (u, rb, t')], s')))
      else (rs, s))"

fun interleave :: "nat list \<Rightarrow> reviewRequest list \<Rightarrow> state \<Rightarrow> reviewRequest list \<times> state" where
  "interleave [] rs s = (rs, s)"
| "interleave (k # ks) rs s = (case advance k rs s of (rs', s') \<Rightarrow> interleave ks rs' s')"

subsection \<open>Admin routes: GET /hosts, the ranking pass\<close>

text \<open>
  \<^verbatim>\<open>allHosts.sort((a, b) => b.earnings - a.earnings)\<close>: descending by earnings, hosts
  with equal earnings keep their order.
\<close>

definition sortedHosts :: "host list \<Rightarrow> host list" where
  "sortedHosts allHosts = sort_key (\<lambda>h. - earnings h) allHosts"

text \<open>
  The body of \<^verbatim>\<open>sortedHosts.forEach((host, index) => ...)\<close>, with \<open>n\<close> the length of
  the sorted list. The thresholds \<^verbatim>\<open>0.01\<close>, \<^verbatim>\<open>0.1\<close> and \<^verbatim>\<open>0.3\<close> are the fractions
  \<open>1/100\<close>, \<open>1/10\<close> and \<open>3/10\<close>.
\<close>

definition tagFor :: "nat \<Rightarrow> nat \<Rightarrow> string option" where
  "tagFor index n =
     (let percentile = (of_nat (index + 1) :: rat) / of_nat n
      in if percentile \<le> 1 / 100 then Some ''gold''
         else if percentile \<le> 1 / 10 then Some ''silver''
         else if percentile \<le> 3 / 10 then Some ''bronze''
         else None)"

fun assignTags :: "nat \<Rightarrow> nat \<Rightarrow> host list \<Rightarrow> host list" where
  "assignTags index n [] = []"
| "assignTags index n (h # hs) = h\<lparr>hostTag := tagFor index n\<rparr> # assignTags (Suc index) n hs"

definition rankHosts :: "host list \<Rightarrow> host list" where
  "rankHosts allHosts = assignTags 0 (length (sortedHosts allHosts)) (sortedHosts allHosts)"

text \<open>\<^verbatim>\<open>Promise.all(sortedHosts.map((host) => host.save()))\<close>.\<close>

definition saveHosts :: "host list \<Rightarrow> state \<Rightarrow> state" where
  "saveHosts ranked s =
     s\<lparr>hosts := fold (\<lambda>h coll. updateFirst (\<lambda>d. h_id d = h_id h) (\<lambda>d. h) coll) ranked (hosts s)\<rparr>"

definition recomputeTags :: "state \<Rightarrow> state" where
  "recomputeTags s = saveHosts (rankHosts (hosts s)) s"

subsection \<open>Authentication middleware\<close>

text \<open>
  \<^verbatim>\<open>String.prototype.replace\<close> with a string pattern replaces the first occurrence.
\<close>

fun replaceFirst :: "string \<Rightarrow> string \<Rightarrow> string \<Rightarrow> string" where
  "replaceFirst pat rep [] = (if pat = [] then rep else [])"
| "replaceFirst pat rep (c # cs) =
     (if prefix pat (c # cs) then rep @ drop (length pat) (c # cs)
      else c # replaceFirst pat rep cs)"

datatype authResult = Rejected response | Next user

text \<open>
  \<open>authorization\<close> is the value of the \<^verbatim>\<open>Authorization\<close> header, \<open>None\<close> when the
  request has none. \<^verbatim>\<open>User.findById\<close> of a missing id finds no user. The projection
  \<^verbatim>\<open>select("-password")\<close> is not represented.
\<close>

definition bearerToken :: "string option \<Rightarrow> string option" where
  "bearerToken authorization = map_option (replaceFirst ''Bearer '' []) authorization"

definition findUserById :: "objectId option \<Rightarrow> state \<Rightarrow> user option" where
  "findUserById i s = (case i of None \<Rightarrow> None | Some k \<Rightarrow> find (\<lambda>u. u_id u = k) (users s))"

definition authenticate :: "externals \<Rightarrow> env \<Rightarrow> string option \<Rightarrow> state \<Rightarrow> authResult" where
  "authenticate x e authorization s =
     (case bearerToken authorization of
        None \<Rightarrow> Rejected (Response 401 (Message ''Access denied. No token provided.''))
      | Some token \<Rightarrow>
          if token = [] then Rejected (Response 401 (Message ''Access denied. No token provided.''))
          else (case jwtVerify x token (JWT_SECRET e) of
              Inl err \<Rightarrow> Rejected (Response 401 (Message ''Token is not valid.''))
            | Inr decodedId \<Rightarrow>
                (case findUserById decodedId s of
                   None \<Rightarrow> Rejected (Response 401 (Message ''Token is not valid.''))
                 | Some u \<Rightarrow> Next u)))"

definition authenticateAdmin :: "externals \<Rightarrow> env \<Rightarrow> string option \<Rightarrow> state \<Rightarrow> authResult" where
  "authenticateAdmin x e authorization s =
     (case bearerToken authorization of
        None \<Rightarrow> Rejected (Response 401 (Message ''Access denied. No token provided.''))
      | Some token \<Rightarrow>
          if token = [] then Rejected (Response 401 (Message ''Access denied. No token provided.''))
          else (case jwtVerify x token (JWT_ADMIN_SECRET e) of
              Inl err \<Rightarrow> Rejected (Response 401 (Message ''Admin token is not valid.''))
            | Inr decodedId \<Rightarrow>
                (case findUserById decodedId s of
                   None \<Rightarrow> Rejected (Response 401 (Message ''Admin access required.''))
                 | Some u \<Rightarrow>
                     if role u \<noteq> ''admin''
                     then Rejected (Response 401 (Message ''Admin access required.''))
                     else Next u)))"

definition authenticateHost :: "externals \<Rightarrow> env \<Rightarrow> string option \<Rightarrow> state \<Rightarrow> authResult" where
  "authenticateHost x e authorization s =
     (case bearerToken authorization of
        None \<Rightarrow> Rejected (Response 401 (Message ''Access denied. No token provided.''))
      | Some token \<Rightarrow>
          if token = [] then Rejected (Response 401 (Message ''Access denied. No token provided.''))
          else (case jwtVerify x token (JWT_SECRET e) of
              Inl err \<Rightarrow> Rejected (Response 401 (Message ''Token is not valid.''))
            | Inr decodedId \<Rightarrow>
                (case findUserById decodedId s of
                   None \<Rightarrow> Rejected (Response 401 (Message ''Host access required.''))
                 | Some u \<Rightarrow>
                     if role u \<noteq> ''host'' \<and> role u \<noteq> ''admin''
                     then Rejected (Response 401 (Message ''Host access required.''))
                     else Next u)))"

subsection \<open>Auth routes that send mail\<close>

record registerBody =
  reg_email :: string
  reg_password :: string
  reg_firstName :: string
  reg_lastName :: string
  reg_phone :: string

definition validRegisterBody :: "externals \<Rightarrow> registerBody \<Rightarrow> bool" where
  "validRegisterBody x rb \<longleftrightarrow>
     isEmail x (reg_email rb) \<and> length (reg_password rb) \<ge> 6 \<and>
     reg_firstName rb \<noteq> [] \<and> reg_lastName rb \<noteq> [] \<and> reg_phone rb \<noteq> []"

text \<open>
  Modelled from the spec: the user schema (\<^verbatim>\<open>models/User.js\<close>) is not among the
  sources. A user is created at registration with the role \<^verbatim>\<open>guest\<close> and no tokens;
  what the schema does to the password before it is stored is the parameter \<open>stored\<close>.
\<close>

definition newUser :: "objectId \<Rightarrow> registerBody \<Rightarrow> string \<Rightarrow> user" where
  "newUser i rb stored =
     \<lparr> u_id = i, email = reg_email rb, password = stored,
       firstName = reg_firstName rb, lastName = reg_lastName rb, phone = reg_phone rb,
       role = ''guest'', verificationToken = None, resetPasswordToken = None,
       resetPasswordExpires = None \<rparr>"

text \<open>\<^verbatim>\<open>generateToken(id)\<close> of \<^verbatim>\<open>routes/auth.js\<close>, for an ordinary user.\<close>

definition generateToken :: "externals \<Rightarrow> env \<Rightarrow> objectId \<Rightarrow> bool \<Rightarrow> string" where
  "generateToken x e i isAdmin = jwtSign x i (if isAdmin then JWT_ADMIN_SECRET e else JWT_SECRET e)"

definition register ::
  "externals \<Rightarrow> env \<Rightarrow> (string \<Rightarrow> string) \<Rightarrow> registerBody \<Rightarrow> state \<Rightarrow> response \<times> state" where
  "register x e stored rb s =
     (if \<not> validRegisterBody x rb then (Response 400 ValidationErrors, s)
      else case find (\<lambda>u. email u = reg_email rb) (users s) of
          Some userExists \<Rightarrow> (Response 400 (Message ''User already exists''), s)
        | None \<Rightarrow>
            (let u0 = newUser (nextId s) rb (stored (reg_password rb));
                 token = jwtSign x (u_id u0) (JWT_SECRET e @ password u0);
                 u = u0\<lparr>verificationToken := Some token\<rparr>;
                 s1 = s\<lparr>users := users s @ [u], nextId := Suc (nextId s)\<rparr>
             in case sendVerificationEmail x (email u) token (firstName u) of
                  Inl err \<Rightarrow> serverError err s1
                | Inr r \<Rightarrow>
                    (Response 201 (TokenIssued (generateToken x e (u_id u) False) u), s1)))"

text \<open>\<open>now\<close> is the value of \<^verbatim>\<open>Date.now()\<close>.\<close>

definition forgotPassword ::
  "externals \<Rightarrow> env \<Rightarrow> int \<Rightarrow> string \<Rightarrow> state \<Rightarrow> response \<times> state" where
  "forgotPassword x e now addr s =
     (if \<not> isEmail x addr then (Response 400 ValidationErrors, s)
      else case find (\<lambda>u. email u = addr) (users s) of
          None \<Rightarrow> (Response 404 (Message ''User not found''), s)
        | Some u0 \<Rightarrow>
            (let resetToken = jwtSign x (u_id u0) (JWT_SECRET e @ password u0);
                 u = u0\<lparr>resetPasswordToken := Some resetToken,
                        resetPasswordExpires := Some (now + 3600000)\<rparr>;
                 s1 = s\<lparr>users := updateFirst (\<lambda>d. u_id d = u_id u) (\<lambda>d. u) (users s)\<rparr>
             in case sendPasswordResetEmail x (email u) resetToken (firstName u) of
                  Inl err \<Rightarrow> serverError err s1
                | Inr r \<Rightarrow> (Response 200 (Message ''Password reset email sent''), s1)))"

section \<open>Auxiliary notions and example inputs\<close>

text \<open>The exponent with gradual underflow, and the smallest positive double.\<close>

definition cexp :: "rat \<Rightarrow> int" where
  "cexp x = max (expo \<bar>x\<bar>) (- 1022)"


definition day :: "int \<Rightarrow> date" where
  "day k = k * 86400000"

definition exDiscount :: "string \<Rightarrow> string \<Rightarrow> rat \<Rightarrow> rat option \<Rightarrow> discount" where
  "exDiscount nm ty v mn =
     \<lparr> d_name = nm, discountType = ty, d_value = v, minNights = mn,
       validFrom = day 0, validUntil = day 30 \<rparr>"

definition exProperty :: "rat \<Rightarrow> discount list \<Rightarrow> property" where
  "exProperty rate ds =
     \<lparr> p_id = 7, p_host = 1, title = ''Cottage'', pricePerNight = rate, maxGuests = 4,
       availability = [], discounts = ds, isActive = True \<rparr>"

definition exDiscounts :: "discount list" where
  "exDiscounts =
     [exDiscount ''long'' ''percentage'' 50 (Some 7),
      exDiscount ''stay3'' ''percentage'' 20 (Some 3),
      exDiscount ''flat50'' ''fixed'' 50 None,
      exDiscount ''flat80'' ''fixed'' 80 None]"

lemmas ex_defs = day_def exDiscount_def exProperty_def exDiscounts_def
  applicableDiscounts_def applicable_def nights_def bookingPrice_def amountOf_def pick_def

definition exIntent :: paymentIntent where
  "exIntent = \<lparr> pi_id = ''pi_1'', client_secret = ''cs_1'', pi_status = ''requires_payment_method'' \<rparr>"

definition exExternals :: externals where
  "exExternals =
     \<lparr> stripeCreate = (\<lambda>cents currency. if cents \<ge> 50 then Inr exIntent else Inl ''amount_too_small''),
       stripeRetrieve = (\<lambda>i. Inr (exIntent\<lparr>pi_status := ''succeeded''\<rparr>)),
       twilioCreate = (\<lambda>to m. Inl ''unreachable''),
       sendMail = (\<lambda>to m. Inl ''connection refused''),
       jwtVerify = (\<lambda>token secret.
          if secret = ''user-secret'' \<and> token = ''t-admin'' then Inr (Some 3)
          else if secret = ''user-secret'' \<and> token = ''t-guest'' then Inr (Some 2)
          else if secret = ''admin-secret'' \<and> token = ''a-admin'' then Inr (Some 3)
          else Inl ''invalid signature''),
       jwtSign = (\<lambda>i secret. secret),
       isEmail = (\<lambda>a. CHR ''@'' \<in> set a) \<rparr>"

definition exUser :: "objectId \<Rightarrow> string \<Rightarrow> user" where
  "exUser i r =
     \<lparr> u_id = i, email = ''a@b.c'', password = ''hash'', firstName = ''Ann'', lastName = ''Lee'',
       phone = ''+100'', role = r, verificationToken = None, resetPasswordToken = None,
       resetPasswordExpires = None \<rparr>"

definition exState :: "property list \<Rightarrow> booking list \<Rightarrow> review list \<Rightarrow> state" where
  "exState ps bs rs =
     \<lparr> users = [exUser 2 ''guest'', exUser 3 ''admin''], hosts = [], properties = ps,
       bookings = bs, reviews = rs, nextId = 100, console = [] \<rparr>"

definition exBookingBody :: "int \<Rightarrow> int \<Rightarrow> bookingBody" where
  "exBookingBody a b =
     \<lparr> bb_propertyId = Some 7, bb_checkIn = Some (day a), bb_checkOut = Some (day b),
       bb_guestsCount = Some 2, bb_specialRequests = None \<rparr>"

text \<open>The booking as the confirmation handler saves it.\<close>

definition confirmed :: "booking \<Rightarrow> paymentIntent \<Rightarrow> booking" where
  "confirmed b0 intent =
     b0\<lparr>status := ''confirmed'', paymentStatus := ''paid'', transactionId := Some (pi_id intent)\<rparr>"

lemmas ex_state_defs = exIntent_def exExternals_def exUser_def exState_def exBookingBody_def

definition exHost :: "nat \<Rightarrow> host" where
  "exHost k = \<lparr> h_id = k, h_user = k, isVerified = True, earnings = of_nat k,
      totalBookings = 0, hostTag = None \<rparr>"

definition exHosts :: "nat \<Rightarrow> host list" where
  "exHosts n = map exHost [0..<n]"

definition exCompleted :: booking where
  "exCompleted = (newBooking 50 (exUser 2 ''guest'') (exBookingBody 1 5) 400 0 exIntent)
     \<lparr>status := ''completed'', paymentStatus := ''paid''\<rparr>"

definition exReviewBody :: reviewBody where
  "exReviewBody = \<lparr> rb_bookingId = Some 50, rb_propertyId = Some 7, rb_rating = Some 4,
     rb_comment = ''A quiet and tidy place.'' \<rparr>"

text \<open>The filter of \<^verbatim>\<open>Booking.findOne\<close> in the review handler.\<close>

definition matching :: "user \<Rightarrow> reviewBody \<Rightarrow> booking \<Rightarrow> bool" where
  "matching u rb b \<longleftrightarrow>
     b_id b = the (rb_bookingId rb) \<and> b_guest b = u_id u \<and>
     b_property b = the (rb_propertyId rb) \<and> status b = ''completed''"

definition exPending :: booking where
  "exPending = newBooking 50 (exUser 2 ''guest'') (exBookingBody 1 5) 400 0 exIntent"

definition exListed :: property where
  "exListed = (exProperty 100 [])
     \<lparr>availability := [\<lparr> startDate = day 0, endDate = day 30, isAvailable = True \<rparr>]\<rparr>"

text \<open>The state without the console.\<close>

definition documents :: "state \<Rightarrow> state" where
  "documents s = s\<lparr>console := []\<rparr>"

lemmas confirm_defs = confirmBooking_def confirmPaymentIntent_def sendBookingConfirmation_def
  sendSMS_def consoleError_def serverError_def pushAvailability_def unavailable_def

definition exEnv :: env where
  "exEnv = \<lparr> JWT_SECRET = ''user-secret'', JWT_ADMIN_SECRET = ''admin-secret'' \<rparr>"

definition exRegisterBody :: registerBody where
  "exRegisterBody = \<lparr> reg_email = ''new@b.c'', reg_password = ''secret1'', reg_firstName = ''Bo'',
     reg_lastName = ''Ray'', reg_phone = ''+200'' \<rparr>"

lemmas ex_all_defs = ex_defs ex_state_defs exPending_def exListed_def exEnv_def
  exRegisterBody_def newBooking_def validBookingBody_def validRegisterBody_def confirmed_def


section \<open>Properties\<close>

subsection \<open>Rounding to doubles\<close>

lemma expo_bounds:
  assumes "0 < x"
  shows "2 powi expo x \<le> x" and "x < 2 powi (expo x + 1)"
proof -
  obtain a b where q: "quotient_of x = (a, b)" by (cases "quotient_of x")
  then have x: "x = of_int a / of_int b" and b: "0 < b"
    by (simp_all add: quotient_of_div quotient_of_denom_pos)
  from assms x b have a: "0 < a"
    by (simp add: zero_less_divide_iff)
  define k where "k = bitlen a - bitlen b"
  have la: "1 \<le> bitlen a" and lb: "1 \<le> bitlen b"
    using a b by (auto simp: bitlen_alt_def)
  have cast_le: "(2::rat) powi (bitlen c - 1) \<le> of_int c" and cast_less: "of_int c < (2::rat) powi bitlen c"
    if c: "0 < c" for c :: int
  proof -
    from c have l: "1 \<le> bitlen c" by (auto simp: bitlen_alt_def)
    from bitlen_bounds [OF c] have "2 ^ nat (bitlen c - 1) \<le> c" and "c < 2 ^ nat (bitlen c)"
      by blast+
    then have "(of_int (2 ^ nat (bitlen c - 1)) :: rat) \<le> of_int c"
      and "(of_int c :: rat) < of_int (2 ^ nat (bitlen c))"
      by (simp_all only: of_int_le_iff of_int_less_iff)
    then have "(2::rat) ^ nat (bitlen c - 1) \<le> of_int c" and "of_int c < (2::rat) ^ nat (bitlen c)"
      by simp_all
    with l show "(2::rat) powi (bitlen c - 1) \<le> of_int c" and "of_int c < (2::rat) powi bitlen c"
      by (simp_all add: power_int_nonneg_exp)
  qed
  note a1 = cast_le [OF a] and a2 = cast_less [OF a] and b1 = cast_le [OF b] and b2 = cast_less [OF b]
  have bpos: "(0::rat) < of_int b" using b by simp
  have lo: "2 powi (k - 1) < x"
  proof -
    have "(2::rat) powi (k - 1) * of_int b < 2 powi (k - 1) * 2 powi bitlen b"
      using b2 by (simp add: mult_strict_left_mono)
    also have "\<dots> = 2 powi (bitlen a - 1)"
      by (simp add: k_def flip: power_int_add)
    also have "\<dots> \<le> of_int a" by (rule a1)
    finally show ?thesis
      using bpos by (simp add: x pos_less_divide_eq)
  qed
  have hi: "x < 2 powi (k + 1)"
  proof -
    have "of_int a < (2::rat) powi bitlen a" by (rule a2)
    also have "\<dots> = 2 powi (k + 1) * 2 powi (bitlen b - 1)"
      by (simp add: k_def flip: power_int_add)
    also have "\<dots> \<le> 2 powi (k + 1) * of_int b"
      using b1 by (simp add: mult_left_mono)
    finally show ?thesis
      using bpos by (simp add: x pos_divide_less_eq)
  qed
  have e: "expo x = (if 2 powi k \<le> x then k else k - 1)"
    by (simp add: expo_def q k_def Let_def)
  show "2 powi expo x \<le> x"
    using lo by (simp add: e)
  show "x < 2 powi (expo x + 1)"
    using hi by (auto simp: e not_le)
qed

lemma powi2_less_iff: "(2::rat) powi m < 2 powi n \<longleftrightarrow> m < n"
  by (metis linorder_not_le one_less_numeral_iff power_int_increasing power_int_strict_increasing
      semiring_norm(76) less_imp_le numeral_le_one_iff semiring_norm(69))

lemma powi2_le_iff: "(2::rat) powi m \<le> 2 powi n \<longleftrightarrow> m \<le> n"
  using powi2_less_iff [of n m] by (auto simp: not_less [symmetric])

lemma expo_unique:
  assumes "0 < x" and "2 powi e \<le> x" and "x < 2 powi (e + 1)"
  shows "expo x = e"
proof -
  from expo_bounds [OF assms(1)] assms(2,3)
  have "(2::rat) powi expo x < 2 powi (e + 1)" and "(2::rat) powi e < 2 powi (expo x + 1)"
    by linarith+
  then show ?thesis by (simp add: powi2_less_iff)
qed


lemma roundEven_of_int [simp]: "roundEven (of_int n) = n"
  by (simp add: roundEven_def)


lemma roundEven_mono:
  assumes "p \<le> q"
  shows "roundEven p \<le> roundEven q"
proof (cases "floor p < floor q")
  case True
  have "roundEven p \<le> floor p + 1"
    by (simp add: roundEven_def Let_def)
  also have "\<dots> \<le> floor q" using True by simp
  also have "\<dots> \<le> roundEven q"
    by (simp add: roundEven_def Let_def)
  finally show ?thesis .
next
  case False
  with assms have "floor p = floor q"
    using floor_mono [of p q] by linarith
  with assms show ?thesis
    by (auto simp: roundEven_def Let_def)
qed

lemma roundEven_nonneg: "0 \<le> q \<Longrightarrow> 0 \<le> roundEven q"
  using roundEven_mono [of 0 q] roundEven_of_int [of 0] by simp

lemma roundEven_le_int: "q \<le> of_int n \<Longrightarrow> roundEven q \<le> n"
  using roundEven_mono [of q "of_int n"] by simp


lemma ulp_pos [simp]: "0 < ulp x"
  by (simp add: ulp_def)

lemma ulp_nonneg [simp]: "0 \<le> ulp x"
  by (simp add: ulp_def)

lemma ulp_neq0 [simp]: "ulp x \<noteq> 0"
  using ulp_pos [of x] by linarith

lemma ulp_not_neg [simp]: "\<not> ulp x < 0"
  using ulp_pos [of x] by linarith

lemma ulp_minus [simp]: "ulp (- x) = ulp x"
  by (simp add: ulp_def)

lemma round64_zero [simp]: "round64 0 = 0"
  by (simp add: round64_def)

lemma round64_minus: "round64 (- x) = - round64 x"
  by (simp add: round64_def sgn_minus)

lemma round64_pos_eq: "0 < x \<Longrightarrow> round64 x = of_int (roundEven (x / ulp x)) * ulp x"
  by (simp add: round64_def)



lemma ulp_cexp: "ulp x = 2 powi (cexp x - 52)"
  by (simp add: ulp_def cexp_def)







lemma cexp_ge: "- 1022 \<le> cexp x"
  by (simp add: cexp_def)

lemma round64_representable:
  assumes "0 < m" and "m < 2 ^ 53" and "- 1074 \<le> k"
  shows "round64 (of_int m * 2 powi k) = of_int m * 2 powi k"
proof -
  define r :: rat where "r = of_int m * 2 powi k"
  have r: "0 < r" using assms(1) by (simp add: r_def)
  have "(of_int m :: rat) < of_int (2 ^ 53)"
    using assms(2) by (simp only: of_int_less_iff)
  then have "r < of_int (2 ^ 53) * 2 powi k"
    unfolding r_def by (intro mult_strict_right_mono) simp_all
  also have "\<dots> = 2 powi (k + 53)"
    by (simp add: power_int_add)
  finally have "2 powi expo r < (2::rat) powi (k + 53)"
    using expo_bounds(1) [OF r] by linarith
  then have e: "expo r \<le> k + 52"
    by (simp add: powi2_less_iff)
  define j where "j = k - (cexp r - 52)"
  have j: "0 \<le> j"
    using e assms(3) r by (simp add: j_def cexp_def)
  have "r / ulp r = of_int m * (2 powi k / 2 powi (cexp r - 52))"
    by (simp add: r_def ulp_cexp)
  also have "2 powi k / 2 powi (cexp r - 52) = (2::rat) powi j"
    by (simp add: j_def flip: power_int_diff)
  also have "\<dots> = of_int (2 ^ nat j)"
    using j by (simp add: power_int_nonneg_exp)
  finally have "r / ulp r = of_int (m * 2 ^ nat j)" by simp
  then have "roundEven (r / ulp r) = m * 2 ^ nat j"
    by (simp only: roundEven_of_int)
  then have "round64 r = of_int (m * 2 ^ nat j) * ulp r"
    using r by (simp add: round64_pos_eq)
  also have "\<dots> = of_int m * ((2::rat) powi j * 2 powi (cexp r - 52))"
    using j by (simp add: ulp_cexp power_int_nonneg_exp)
  also have "(2::rat) powi j * 2 powi (cexp r - 52) = 2 powi k"
    by (simp add: j_def flip: power_int_add)
  finally show ?thesis by (simp add: r_def)
qed

lemma round64_idem_pos:
  assumes "0 < x"
  shows "round64 (round64 x) = round64 x"
proof -
  define M where "M = roundEven (x / ulp x)"
  have rx: "round64 x = of_int M * 2 powi (cexp x - 52)"
    using assms by (simp add: round64_pos_eq M_def ulp_cexp)
  have M0: "0 \<le> M"
    unfolding M_def using assms by (intro roundEven_nonneg divide_nonneg_nonneg) simp_all
  have "x < 2 powi (expo x + 1)" using expo_bounds(2) [OF assms] .
  also have "\<dots> \<le> 2 powi (cexp x + 1)"
    using assms by (simp add: cexp_def powi2_le_iff)
  finally have "x / ulp x < 2 powi (cexp x + 1) / ulp x"
    by (intro divide_strict_right_mono) simp_all
  also have "\<dots> = 2 powi 53"
    by (simp add: ulp_cexp flip: power_int_diff)
  finally have "x / ulp x \<le> of_int (2 ^ 53)" by simp
  then have M53: "M \<le> 2 ^ 53" unfolding M_def by (rule roundEven_le_int)
  have k: "- 1074 \<le> cexp x - 52" using cexp_ge [of x] by simp
  consider "M = 0" | "0 < M" "M < 2 ^ 53" | "M = 2 ^ 53" using M0 M53 by linarith
  then show ?thesis
  proof cases
    case 1
    then show ?thesis by (simp add: rx)
  next
    case 2
    from round64_representable [OF 2 k] show ?thesis by (simp add: rx)
  next
    case 3
    have "round64 x = of_int (2 ^ 52) * 2 powi (cexp x - 51)"
      by (simp add: rx 3 power_int_diff)
    moreover have "round64 (of_int (2 ^ 52) * 2 powi (cexp x - 51)) = of_int (2 ^ 52) * 2 powi (cexp x - 51)"
      using k by (intro round64_representable) simp_all
    ultimately show ?thesis by (simp only:)
  qed
qed

lemma round64_idem [simp]: "round64 (round64 x) = round64 x"
proof -
  consider "0 < x" | "x = 0" | "0 < - x" by linarith
  then show ?thesis
  proof cases
    case 1
    then show ?thesis by (rule round64_idem_pos)
  next
    case 2
    then show ?thesis by simp
  next
    case 3
    from round64_idem_pos [OF 3] show ?thesis by (simp add: round64_minus)
  qed
qed





lemma round64_of_int:
  assumes "\<bar>n\<bar> < 2 ^ 53"
  shows "round64 (of_int n) = of_int n"
proof -
  consider "0 < n" | "n = 0" | "0 < - n" by linarith
  then show ?thesis
  proof cases
    case 1
    with assms have "n < 2 ^ 53" by simp
    from round64_representable [OF 1 this, of 0] show ?thesis by simp
  next
    case 2
    then show ?thesis by simp
  next
    case 3
    with assms have "- n < 2 ^ 53" by simp
    from round64_representable [OF 3 this, of 0] show ?thesis
      by (simp add: round64_minus)
  qed
qed

lemma round64_numeral: "(numeral w :: int) < 2 ^ 53 \<Longrightarrow> round64 (numeral w) = numeral w"
  using round64_of_int [of "numeral w"] by simp

lemma round64_neg_numeral:
  "(numeral w :: int) < 2 ^ 53 \<Longrightarrow> round64 (- numeral w) = - numeral w"
  using round64_of_int [of "- numeral w"] by simp

lemma round64_one: "round64 1 = 1"
  using round64_of_int [of 1] by simp

text \<open>
  Two known doubles: \<^verbatim>\<open>0.1\<close> is \<open>3602879701896397 / 2 ^ 55\<close>, and \<^verbatim>\<open>0.1 + 0.2\<close> is
  not \<^verbatim>\<open>0.3\<close>.
\<close>

lemma round64_examples:
  "round64 (1 / 10) = 3602879701896397 / 2 ^ 55"
  "round64 (round64 (1 / 10) + round64 (2 / 10)) \<noteq> round64 (3 / 10)"
  by code_simp+

lemmas ex_num = times64_def divide64_def minus64_def round64_numeral round64_neg_numeral
  round64_one round64_zero

subsection \<open>Number of nights\<close>

lemma nights_le_iff: "(nights ci co \<le> n) = (co - ci \<le> n * 86400000)"
proof -
  have "(nights ci co \<le> n) = ((of_int (co - ci) :: rat) / 86400000 \<le> of_int n)"
    by (simp add: nights_def ceiling_le_iff)
  also have "\<dots> = ((of_int (co - ci) :: rat) \<le> of_int n * 86400000)"
    by (simp add: pos_divide_le_eq)
  also have "\<dots> = ((of_int (co - ci) :: rat) \<le> of_int (n * 86400000))"
    by simp
  also have "\<dots> = (co - ci \<le> n * 86400000)"
    by (simp only: of_int_le_iff)
  finally show ?thesis .
qed

text \<open>
  C4: the number of nights is the ceiling of the difference of the two dates in days: it
  is the one integer \<open>n\<close> with \<open>(n - 1) days < checkOut - checkIn \<le> n days\<close>. A
  check-out exactly 24 hours after the check-in gives one night.
\<close>

theorem nights_ceiling:
  "co - ci \<le> nights ci co * 86400000 \<and> (nights ci co - 1) * 86400000 < co - ci \<and>
   nights ci (ci + 24 * 60 * 60 * 1000) = 1"
proof -
  have a: "co - ci \<le> nights ci co * 86400000"
    using nights_le_iff [of ci co "nights ci co"] by simp
  have b: "(nights ci co - 1) * 86400000 < co - ci"
    using nights_le_iff [of ci co "nights ci co - 1"] by simp
  have c: "nights ci (ci + 24 * 60 * 60 * 1000) = 1"
    by (simp add: nights_def)
  from a b c show ?thesis by blast
qed

subsection \<open>Price and discount\<close>




text \<open>
  Amounts that are equal as fractions can differ as doubles: at 20.46 a night for five
  nights, 30 per cent of the total is larger than the fixed discount of 30.69, and the
  percentage discount, second in the list, is the one chosen.
\<close>

lemma bookingPrice_double_example:
  "bestDiscount (times64 5 (round64 (2046 / 100)))
     [exDiscount ''flat'' ''fixed'' (round64 (3069 / 100)) None,
      exDiscount ''pct'' ''percentage'' 30 None] =
     Some (exDiscount ''pct'' ''percentage'' 30 None)"
  by code_simp




lemma bookingPrice_cases:
  "bookingPrice p ci co =
     (case bestDiscount (times64 (of_int (nights ci co)) (pricePerNight p))
             (applicableDiscounts p ci co) of
        None \<Rightarrow> (times64 (of_int (nights ci co)) (pricePerNight p), 0)
      | Some best \<Rightarrow>
          (minus64 (times64 (of_int (nights ci co)) (pricePerNight p))
             (amountOf (times64 (of_int (nights ci co)) (pricePerNight p)) best),
           amountOf (times64 (of_int (nights ci co)) (pricePerNight p)) best))"
  by (simp add: bookingPrice_def Let_def split: option.splits)





text \<open>
  A discount of 100 per cent can exceed the raw total by rounding: at 1.12 a night for
  three nights the raw total is \<open>3.3600000000000003\<close>, the discount amount
  \<open>3.3600000000000008\<close>, and the total \<open>- 2 ^ -51\<close>.
\<close>

lemma full_percentage_example:
  "bookingPrice (exProperty (round64 (112 / 100)) [exDiscount ''all'' ''percentage'' 100 None])
     (day 1) (day 4) =
     (- (1 / 2 ^ 51), 7566047373982435 / 2251799813685248)"
  by code_simp

subsection \<open>Booking creation\<close>

text \<open>What the handler does once the body is valid and the property is found.\<close>

lemma createBooking_found:
  assumes "validBookingBody rb"
    and "find (\<lambda>q. p_id q = the (bb_propertyId rb)) (properties s) = Some p"
  shows "createBooking x u rb s =
     (case stripeCreate x
             (floor (times64 (fst (bookingPrice p (the (bb_checkIn rb)) (the (bb_checkOut rb)))) 100 + 1 / 2))
             ''usd'' of
        Inl e \<Rightarrow>
          (Response 500 (Message ''Server error''),
           s\<lparr>console := console s @ [''Stripe error: '' @ e, ''Payment processing failed'']\<rparr>)
      | Inr intent \<Rightarrow>
          (Response 200
             (BookingCreated
                (newBooking (nextId s) u rb
                   (fst (bookingPrice p (the (bb_checkIn rb)) (the (bb_checkOut rb))))
                   (snd (bookingPrice p (the (bb_checkIn rb)) (the (bb_checkOut rb)))) intent)
                (client_secret intent)),
           s\<lparr>bookings := bookings s @
                  [newBooking (nextId s) u rb
                     (fst (bookingPrice p (the (bb_checkIn rb)) (the (bb_checkOut rb))))
                     (snd (bookingPrice p (the (bb_checkIn rb)) (the (bb_checkOut rb)))) intent],
               nextId := Suc (nextId s)\<rparr>))"
  using assms
  by (simp add: createBooking_def createPaymentIntent_def serverError_def consoleError_def
      Let_def split: prod.splits sum.splits)

text \<open>
  C2 (as amended): a request whose number of nights is 0 or negative meets no date-range
  check. With a valid body and an existing property the price computation completes with
  \<open>total = nights * pricePerNight - discountAmount\<close> in doubles; the booking is then created
  (status 200) when the payment gateway returns an intent for that amount, and the
  request fails with status 500, ``Server error'', without creating a booking when the
  gateway throws.
\<close>

theorem createBooking_no_date_range_check:
  assumes "validBookingBody rb"
    and "find (\<lambda>q. p_id q = the (bb_propertyId rb)) (properties s) = Some p"
    and "nights (the (bb_checkIn rb)) (the (bb_checkOut rb)) \<le> 0"
  defines "price \<equiv> bookingPrice p (the (bb_checkIn rb)) (the (bb_checkOut rb))"
  shows "fst price =
           minus64 (times64 (of_int (nights (the (bb_checkIn rb)) (the (bb_checkOut rb))))
                      (pricePerNight p)) (snd price) \<and>
         (\<forall>intent. stripeCreate x (floor (times64 (fst price) 100 + 1 / 2)) ''usd'' = Inr intent \<longrightarrow>
            statusCode (fst (createBooking x u rb s)) = 200 \<and>
            bookings (snd (createBooking x u rb s)) =
              bookings s @ [newBooking (nextId s) u rb (fst price) (snd price) intent]) \<and>
         (\<forall>e. stripeCreate x (floor (times64 (fst price) 100 + 1 / 2)) ''usd'' = Inl e \<longrightarrow>
            fst (createBooking x u rb s) = Response 500 (Message ''Server error'') \<and>
            bookings (snd (createBooking x u rb s)) = bookings s)"
proof (intro conjI allI impI)
  show "fst price =
      minus64 (times64 (of_int (nights (the (bb_checkIn rb)) (the (bb_checkOut rb))))
                 (pricePerNight p)) (snd price)"
    by (simp add: price_def bookingPrice_cases minus64_def times64_def split: option.splits)
next
  fix intent
  assume "stripeCreate x (floor (times64 (fst price) 100 + 1 / 2)) ''usd'' = Inr intent"
  then show "statusCode (fst (createBooking x u rb s)) = 200"
    and "bookings (snd (createBooking x u rb s)) =
      bookings s @ [newBooking (nextId s) u rb (fst price) (snd price) intent]"
    using createBooking_found [OF assms(1,2), of x u] by (simp_all add: price_def)
next
  fix e
  assume "stripeCreate x (floor (times64 (fst price) 100 + 1 / 2)) ''usd'' = Inl e"
  then show "fst (createBooking x u rb s) = Response 500 (Message ''Server error'')"
    and "bookings (snd (createBooking x u rb s)) = bookings s"
    using createBooking_found [OF assms(1,2), of x u] by (simp_all add: price_def)
qed

theorem createBooking_no_date_range_check_witness:
  "validBookingBody (exBookingBody 3 1) \<and>
   nights (the (bb_checkIn (exBookingBody 3 1))) (the (bb_checkOut (exBookingBody 3 1))) \<le> 0 \<and>
   fst (createBooking exExternals (exUser 2 ''guest'') (exBookingBody 3 1)
          (exState [exProperty 100 []] [] [])) = Response 500 (Message ''Server error'') \<and>
   bookings (snd (createBooking exExternals (exUser 2 ''guest'') (exBookingBody 3 1)
          (exState [exProperty 100 []] [] []))) = []"
  using createBooking_no_date_range_check [of "exBookingBody 3 1" "exState [exProperty 100 []] [] []"
      "exProperty 100 []" exExternals "exUser 2 ''guest''"]
  by (simp add: ex_defs ex_num ex_state_defs validBookingBody_def)

text \<open>
  A request with the check-out two days before the check-in, on a property whose nightly
  rate is negative (the property validator accepts any numeric rate) and with a gateway
  that accepts amounts of at least 50 cents: the booking is created.
\<close>

theorem createBooking_reversed_dates_counterexample:
  "nights (day 3) (day 1) = - 2 \<and>
   createBooking exExternals (exUser 2 ''guest'') (exBookingBody 3 1)
       (exState [exProperty (- 100) []] [] []) =
     (Response 200
        (BookingCreated (newBooking 100 (exUser 2 ''guest'') (exBookingBody 3 1) 200 0 exIntent) ''cs_1''),
      (exState [exProperty (- 100) []]
         [newBooking 100 (exUser 2 ''guest'') (exBookingBody 3 1) 200 0 exIntent] [])
        \<lparr>nextId := 101\<rparr>)"
  by (simp add: ex_defs ex_num ex_state_defs createBooking_def validBookingBody_def
      createPaymentIntent_def newBooking_def Let_def)

subsection \<open>Booking confirmation\<close>

lemma updateFirst_pred:
  assumes "\<forall>d\<in>set ds. P d" and "\<And>d. P d \<Longrightarrow> P (f d)"
  shows "\<forall>d\<in>set (updateFirst Q f ds). P d"
  using assms by (induction ds) auto

lemma confirmBooking_paid_no_property:
  assumes "find (\<lambda>b. b_id b = i) (bookings s) = Some b0"
    and "b_guest b0 = u_id u"
    and "stripeRetrieve x (paymentIntentId b0) = Inr intent"
    and "pi_status intent = ''succeeded''"
    and "find (\<lambda>p. p_id p = b_property b0) (properties s) = None"
  shows "confirmBooking x u (Some i) s =
     (Response 500 (Message ''Server error''),
      s\<lparr>bookings := updateFirst (\<lambda>d. b_id d = b_id b0) (\<lambda>d. confirmed b0 intent) (bookings s),
        console := console s @ [''TypeError'']\<rparr>)"
  using assms
  by (simp add: confirmBooking_def confirmPaymentIntent_def serverError_def consoleError_def
      confirmed_def Let_def)

lemma confirmBooking_paid:
  assumes "find (\<lambda>b. b_id b = i) (bookings s) = Some b0"
    and "b_guest b0 = u_id u"
    and "stripeRetrieve x (paymentIntentId b0) = Inr intent"
    and "pi_status intent = ''succeeded''"
    and "find (\<lambda>p. p_id p = b_property b0) (properties s) = Some p"
  shows "confirmBooking x u (Some i) s =
     (Response 200 (BookingConfirmed ''Booking confirmed successfully'' (confirmed b0 intent)),
      s\<lparr>bookings := updateFirst (\<lambda>d. b_id d = b_id b0) (\<lambda>d. confirmed b0 intent) (bookings s),
        properties := updateFirst (\<lambda>d. p_id d = p_id p)
            (pushAvailability (unavailable (confirmed b0 intent))) (properties s),
        console := console s @
          (case twilioCreate x (phone u)
                  (BookingConfirmationSms (title p) (checkIn b0) (checkOut b0) (totalAmount b0)) of
             Inl e \<Rightarrow> [''Twilio error: '' @ e, ''SMS sending failed: Failed to send SMS'']
           | Inr r \<Rightarrow> [])\<rparr>)"
proof (cases "twilioCreate x (phone u)
                (BookingConfirmationSms (title p) (checkIn b0) (checkOut b0) (totalAmount b0))")
  case (Inl e)
  with assms show ?thesis
    by (simp add: confirmBooking_def confirmPaymentIntent_def consoleError_def
        sendBookingConfirmation_def sendSMS_def confirmed_def Let_def)
next
  case (Inr r)
  with assms show ?thesis
    by (simp add: confirmBooking_def confirmPaymentIntent_def consoleError_def
        sendBookingConfirmation_def sendSMS_def confirmed_def Let_def)
qed

lemma confirmBooking_bookings:
  "bookings (snd (confirmBooking x u bid s)) = bookings s \<or>
   (\<exists>b0 intent. b0 \<in> set (bookings s) \<and>
      bookings (snd (confirmBooking x u bid s)) =
        updateFirst (\<lambda>d. b_id d = b_id b0) (\<lambda>d. confirmed b0 intent) (bookings s))"
proof (cases bid)
  case None
  then show ?thesis by (simp add: confirmBooking_def serverError_def consoleError_def)
next
  case (Some i)
  show ?thesis
  proof (cases "find (\<lambda>b. b_id b = i) (bookings s)")
    case None
    with Some show ?thesis by (simp add: confirmBooking_def)
  next
    case b0: (Some b0)
    then have mem: "b0 \<in> set (bookings s)"
      by (auto simp: find_Some_iff)
    show ?thesis
    proof (cases "stripeRetrieve x (paymentIntentId b0)")
      case (Inl e)
      with Some b0 show ?thesis
        by (simp add: confirmBooking_def confirmPaymentIntent_def serverError_def consoleError_def)
    next
      case (Inr intent)
      show ?thesis
      proof (cases "b_guest b0 = u_id u \<and> pi_status intent = ''succeeded''")
        case False
        with Some b0 Inr show ?thesis
          by (auto simp: confirmBooking_def confirmPaymentIntent_def)
      next
        case True
        show ?thesis
        proof (cases "find (\<lambda>p. p_id p = b_property b0) (properties s)")
          case None
          from confirmBooking_paid_no_property [OF b0 _ Inr _ None] True Some mem
          show ?thesis by auto
        next
          case p: (Some p)
          from confirmBooking_paid [OF b0 _ Inr _ p] True Some mem
          show ?thesis by auto
        qed
      qed
    qed
  qed
qed

text \<open>
  C8 (as amended): a booking that the system creates carries the check-in and check-out
  of the request, whatever their order. Creating a booking from a request with
  \<open>checkIn < checkOut\<close>, and confirming a booking, keep \<open>checkIn < checkOut\<close> for all
  stored bookings when it held before.
\<close>

theorem bookings_keep_request_dates:
  "(createBooking x u rb s = (Response 200 bd, s') \<longrightarrow>
      (\<exists>b. bookings s' = bookings s @ [b] \<and>
           checkIn b = the (bb_checkIn rb) \<and> checkOut b = the (bb_checkOut rb))) \<and>
   ((\<forall>b\<in>set (bookings s). checkIn b < checkOut b) \<and>
    the (bb_checkIn rb) < the (bb_checkOut rb) \<longrightarrow>
      (\<forall>b\<in>set (bookings (snd (createBooking x u rb s))). checkIn b < checkOut b)) \<and>
   ((\<forall>b\<in>set (bookings s). checkIn b < checkOut b) \<longrightarrow>
      (\<forall>b\<in>set (bookings (snd (confirmBooking x u bid s))). checkIn b < checkOut b))"
proof (intro conjI impI)
  assume a: "createBooking x u rb s = (Response 200 bd, s')"
  show "\<exists>b. bookings s' = bookings s @ [b] \<and>
           checkIn b = the (bb_checkIn rb) \<and> checkOut b = the (bb_checkOut rb)"
  proof (cases "validBookingBody rb")
    case False
    with a show ?thesis by (simp add: createBooking_def)
  next
    case True
    show ?thesis
    proof (cases "find (\<lambda>q. p_id q = the (bb_propertyId rb)) (properties s)")
      case None
      with a True show ?thesis by (simp add: createBooking_def)
    next
      case (Some p)
      from a createBooking_found [OF True Some, of x u] show ?thesis
        by (auto simp: newBooking_def split: sum.splits)
    qed
  qed
next
  assume a: "(\<forall>b\<in>set (bookings s). checkIn b < checkOut b) \<and>
    the (bb_checkIn rb) < the (bb_checkOut rb)"
  show "\<forall>b\<in>set (bookings (snd (createBooking x u rb s))). checkIn b < checkOut b"
  proof (cases "validBookingBody rb")
    case False
    with a show ?thesis by (simp add: createBooking_def)
  next
    case True
    show ?thesis
    proof (cases "find (\<lambda>q. p_id q = the (bb_propertyId rb)) (properties s)")
      case None
      with a True show ?thesis by (simp add: createBooking_def)
    next
      case (Some p)
      from a createBooking_found [OF True Some, of x u] show ?thesis
        by (auto simp: newBooking_def split: sum.splits)
    qed
  qed
next
  assume a: "\<forall>b\<in>set (bookings s). checkIn b < checkOut b"
  from confirmBooking_bookings [of x u bid s]
  show "\<forall>b\<in>set (bookings (snd (confirmBooking x u bid s))). checkIn b < checkOut b"
  proof
    assume "bookings (snd (confirmBooking x u bid s)) = bookings s"
    with a show ?thesis by simp
  next
    assume "\<exists>b0 intent. b0 \<in> set (bookings s) \<and>
      bookings (snd (confirmBooking x u bid s)) =
        updateFirst (\<lambda>d. b_id d = b_id b0) (\<lambda>d. confirmed b0 intent) (bookings s)"
    then obtain b0 intent where mem: "b0 \<in> set (bookings s)"
      and eq: "bookings (snd (confirmBooking x u bid s)) =
        updateFirst (\<lambda>d. b_id d = b_id b0) (\<lambda>d. confirmed b0 intent) (bookings s)"
      by blast
    from a mem have "checkIn b0 < checkOut b0" by blast
    then have "\<And>d. checkIn d < checkOut d \<Longrightarrow>
        checkIn (confirmed b0 intent) < checkOut (confirmed b0 intent)"
      by (simp add: confirmed_def)
    from updateFirst_pred [where P = "\<lambda>d. checkIn d < checkOut d", OF a this]
    show ?thesis unfolding eq .
  qed
qed

theorem bookings_keep_request_dates_witness:
  "createBooking exExternals (exUser 2 ''guest'') (exBookingBody 1 5)
       (exState [exProperty 100 []] [] []) =
     (Response 200
        (BookingCreated (newBooking 100 (exUser 2 ''guest'') (exBookingBody 1 5) 400 0 exIntent) ''cs_1''),
      (exState [exProperty 100 []]
         [newBooking 100 (exUser 2 ''guest'') (exBookingBody 1 5) 400 0 exIntent] [])
        \<lparr>nextId := 101\<rparr>) \<and>
   checkIn (newBooking 100 (exUser 2 ''guest'') (exBookingBody 1 5) 400 0 exIntent) = day 1 \<and>
   checkOut (newBooking 100 (exUser 2 ''guest'') (exBookingBody 1 5) 400 0 exIntent) = day 5 \<and>
   list_all (\<lambda>b. checkIn b < checkOut b)
     (bookings (snd (createBooking exExternals (exUser 2 ''guest'') (exBookingBody 1 5)
        (exState [exProperty 100 []] [] [])))) \<and>
   list_all (\<lambda>b. checkIn b < checkOut b)
     (bookings (snd (confirmBooking exExternals (exUser 2 ''guest'') (Some 100)
        (exState [exProperty 100 []]
           [newBooking 100 (exUser 2 ''guest'') (exBookingBody 1 5) 400 0 exIntent] []))))"
  using bookings_keep_request_dates [where x = exExternals and u = "exUser 2 ''guest''"
      and rb = "exBookingBody 1 5" and s = "exState [exProperty 100 []] [] []"
      and bd = "BookingCreated (newBooking 100 (exUser 2 ''guest'') (exBookingBody 1 5) 400 0 exIntent) ''cs_1''"
      and s' = "(exState [exProperty 100 []]
         [newBooking 100 (exUser 2 ''guest'') (exBookingBody 1 5) 400 0 exIntent] [])
        \<lparr>nextId := 101\<rparr>" and bid = "Some 100"]
    bookings_keep_request_dates [where x = exExternals and u = "exUser 2 ''guest''"
      and rb = "exBookingBody 1 5"
      and s = "exState [exProperty 100 []]
           [newBooking 100 (exUser 2 ''guest'') (exBookingBody 1 5) 400 0 exIntent] []"
      and bid = "Some 100"]
  by (simp add: ex_defs ex_num ex_state_defs createBooking_def validBookingBody_def
      createPaymentIntent_def newBooking_def Let_def list_all_iff)

text \<open>
  The invariant is not enforced: a stored booking whose check-out is the day before its
  check-in.
\<close>

theorem stored_booking_reversed_dates_counterexample:
  "bookings (snd (createBooking exExternals (exUser 2 ''guest'') (exBookingBody 10 9)
       (exState [exProperty (- 100) []] [] []))) =
     [newBooking 100 (exUser 2 ''guest'') (exBookingBody 10 9) 100 0 exIntent] \<and>
   checkOut (newBooking 100 (exUser 2 ''guest'') (exBookingBody 10 9) 100 0 exIntent) <
   checkIn (newBooking 100 (exUser 2 ''guest'') (exBookingBody 10 9) 100 0 exIntent)"
  by (simp add: ex_defs ex_num ex_state_defs createBooking_def validBookingBody_def
      createPaymentIntent_def newBooking_def Let_def)

subsection \<open>Host ranking\<close>

lemma length_assignTags: "length (assignTags i n hs) = length hs"
  by (induction hs arbitrary: i) simp_all

lemma nth_assignTags:
  "k < length hs \<Longrightarrow> assignTags i n hs ! k = (hs ! k)\<lparr>hostTag := tagFor (i + k) n\<rparr>"
proof (induction hs arbitrary: i k)
  case Nil
  then show ?case by simp
next
  case (Cons h hs)
  show ?case
  proof (cases k)
    case 0
    then show ?thesis by simp
  next
    case (Suc m)
    with Cons.prems have "m < length hs" by simp
    from Cons.IH [OF this, of "Suc i"] Suc show ?thesis by simp
  qed
qed

lemma sortedHosts_descending:
  assumes "i \<le> j" and "j < length hs"
  shows "earnings (sortedHosts hs ! j) \<le> earnings (sortedHosts hs ! i)"
proof -
  have s: "sorted (map (\<lambda>h. - earnings h) (sortedHosts hs))"
    by (simp add: sortedHosts_def)
  have l: "length (sortedHosts hs) = length hs"
    by (simp add: sortedHosts_def)
  from assms l have "map (\<lambda>h. - earnings h) (sortedHosts hs) ! i
      \<le> map (\<lambda>h. - earnings h) (sortedHosts hs) ! j"
    using s by (intro sorted_nth_mono) simp_all
  with assms l show ?thesis by simp
qed

text \<open>
  C5: the hosts are sorted by descending earnings, and the host at index \<open>i\<close> (from 0)
  of the \<open>N\<close> sorted hosts gets the tag gold if \<open>(i + 1) / N \<le> 0.01\<close>, else silver
  if \<open>\<le> 0.10\<close>, else bronze if \<open>\<le> 0.30\<close>, else no tag. With 100 hosts, rank 1 is
  gold, rank 5 silver, rank 25 bronze and rank 50 has no tag.
\<close>

theorem rankHosts_tags:
  "length (rankHosts hs) = length hs \<and>
   mset (sortedHosts hs) = mset hs \<and>
   (\<forall>i j. i \<le> j \<and> j < length hs \<longrightarrow>
      earnings (sortedHosts hs ! j) \<le> earnings (sortedHosts hs ! i)) \<and>
   (\<forall>i<length hs.
      rankHosts hs ! i = (sortedHosts hs ! i)
        \<lparr>hostTag :=
           if (of_nat (i + 1) :: rat) / of_nat (length hs) \<le> 1 / 100 then Some ''gold''
           else if (of_nat (i + 1) :: rat) / of_nat (length hs) \<le> 10 / 100 then Some ''silver''
           else if (of_nat (i + 1) :: rat) / of_nat (length hs) \<le> 30 / 100 then Some ''bronze''
           else None\<rparr>) \<and>
   (length hs = 100 \<longrightarrow>
      hostTag (rankHosts hs ! 0) = Some ''gold'' \<and>
      hostTag (rankHosts hs ! 4) = Some ''silver'' \<and>
      hostTag (rankHosts hs ! 24) = Some ''bronze'' \<and>
      hostTag (rankHosts hs ! 49) = None)"
proof -
  have l: "length (sortedHosts hs) = length hs"
    by (simp add: sortedHosts_def)
  have a: "length (rankHosts hs) = length hs"
    by (simp add: rankHosts_def length_assignTags l)
  have b: "mset (sortedHosts hs) = mset hs"
    by (simp add: sortedHosts_def)
  have c: "\<forall>i j. i \<le> j \<and> j < length hs \<longrightarrow>
      earnings (sortedHosts hs ! j) \<le> earnings (sortedHosts hs ! i)"
    using sortedHosts_descending by blast
  have n: "rankHosts hs ! i = (sortedHosts hs ! i)\<lparr>hostTag := tagFor i (length hs)\<rparr>"
    if "i < length hs" for i
    using that nth_assignTags [of i "sortedHosts hs" 0 "length hs"]
    by (simp add: rankHosts_def l)
  have d: "\<forall>i<length hs.
      rankHosts hs ! i = (sortedHosts hs ! i)
        \<lparr>hostTag :=
           if (of_nat (i + 1) :: rat) / of_nat (length hs) \<le> 1 / 100 then Some ''gold''
           else if (of_nat (i + 1) :: rat) / of_nat (length hs) \<le> 10 / 100 then Some ''silver''
           else if (of_nat (i + 1) :: rat) / of_nat (length hs) \<le> 30 / 100 then Some ''bronze''
           else None\<rparr>"
    using n by (simp add: tagFor_def Let_def)
  have e: "hostTag (rankHosts hs ! 0) = Some ''gold'' \<and>
      hostTag (rankHosts hs ! 4) = Some ''silver'' \<and>
      hostTag (rankHosts hs ! 24) = Some ''bronze'' \<and>
      hostTag (rankHosts hs ! 49) = None" if "length hs = 100"
    using that n [of 0] n [of 4] n [of 24] n [of 49] by (simp add: tagFor_def Let_def)
  from a b c d e show ?thesis by blast
qed

theorem rankHosts_tags_witness:
  "length (exHosts 100) = 100 \<and>
   hostTag (rankHosts (exHosts 100) ! 0) = Some ''gold'' \<and>
   hostTag (rankHosts (exHosts 100) ! 4) = Some ''silver'' \<and>
   hostTag (rankHosts (exHosts 100) ! 24) = Some ''bronze'' \<and>
   hostTag (rankHosts (exHosts 100) ! 49) = None \<and>
   map (\<lambda>h. (h_id h, hostTag h)) (rankHosts (exHosts 10)) =
     [(9, Some ''silver''), (8, Some ''bronze''), (7, Some ''bronze''), (6, None), (5, None),
      (4, None), (3, None), (2, None), (1, None), (0, None)]"
proof -
  have l: "length (exHosts 100) = 100"
    by (simp add: exHosts_def)
  have t: "map (\<lambda>h. (h_id h, hostTag h)) (rankHosts (exHosts 10)) =
     [(9, Some ''silver''), (8, Some ''bronze''), (7, Some ''bronze''), (6, None), (5, None),
      (4, None), (3, None), (2, None), (1, None), (0, None)]"
    by code_simp
  from rankHosts_tags [of "exHosts 100"] l t show ?thesis by blast
qed

subsection \<open>Reviews\<close>

lemma createReview_cases:
  "createReview u rb s =
     (if \<not> validReviewBody rb then (Response 400 ValidationErrors, s)
      else if \<not> (\<exists>b\<in>set (bookings s). matching u rb b)
        then (Response 404 (Message ''Valid booking not found''), s)
      else if \<exists>r\<in>set (reviews s). r_booking r = the (rb_bookingId rb)
        then (Response 400 (Message ''Review already exists for this booking''), s)
      else (Response 201 (ReviewCreated (newReview (nextId s) u rb)),
            s\<lparr>reviews := reviews s @ [newReview (nextId s) u rb], nextId := Suc (nextId s)\<rparr>))"
proof -
  have m: "(find (\<lambda>b. b_id b = the (rb_bookingId rb) \<and> b_guest b = u_id u \<and>
                b_property b = the (rb_propertyId rb) \<and> status b = ''completed'') (bookings s) = None)
           = (\<not> (\<exists>b\<in>set (bookings s). matching u rb b))"
    by (auto simp: find_None_iff matching_def)
  have r: "(find (\<lambda>r. r_booking r = the (rb_bookingId rb)) (reviews s) = None)
           = (\<not> (\<exists>r\<in>set (reviews s). r_booking r = the (rb_bookingId rb)))"
    by (auto simp: find_None_iff)
  show ?thesis
    using m r by (auto simp: createReview_def Let_def split: option.splits)
qed

lemma newReview_fields:
  assumes "validReviewBody rb"
  shows "r_booking (newReview i u rb) = the (rb_bookingId rb)"
    and "r_guest (newReview i u rb) = u_id u"
    and "r_property (newReview i u rb) = the (rb_propertyId rb)"
    and "1 \<le> rating (newReview i u rb)" and "rating (newReview i u rb) \<le> 5"
  using assms by (auto simp: newReview_def validReviewBody_def split: option.splits)

text \<open>
  C6 (as amended): a review is created (status 201) exactly when the body is valid, a
  completed booking with the given identifier, of the requesting guest and on the given
  property exists, and no review refers to that booking when the handler looks. The
  review created is the one new entry of the collection, refers to that booking, guest
  and property and has a rating from 1 to 5; any other outcome leaves the state
  unchanged. When a review of the booking exists the request fails with status 400,
  ``Review already exists for this booking'', so the same request made again after a
  success fails; and a collection with at most one review per booking keeps that property
  under requests handled one after another, \<open>createReview\<close> being the three steps of a
  request run without another request in between.
\<close>

theorem createReview_at_most_once:
  "(statusCode (fst (createReview u rb s)) = 201 \<longleftrightarrow>
      validReviewBody rb \<and> (\<exists>b\<in>set (bookings s). matching u rb b) \<and>
      (\<forall>r\<in>set (reviews s). r_booking r \<noteq> the (rb_bookingId rb))) \<and>
   (statusCode (fst (createReview u rb s)) = 201 \<longrightarrow>
      (\<exists>r. reviews (snd (createReview u rb s)) = reviews s @ [r] \<and>
           r_booking r = the (rb_bookingId rb) \<and> r_guest r = u_id u \<and>
           r_property r = the (rb_propertyId rb) \<and> 1 \<le> rating r \<and> rating r \<le> 5)) \<and>
   (statusCode (fst (createReview u rb s)) \<noteq> 201 \<longrightarrow> snd (createReview u rb s) = s) \<and>
   (validReviewBody rb \<and> (\<exists>b\<in>set (bookings s). matching u rb b) \<and>
    (\<exists>r\<in>set (reviews s). r_booking r = the (rb_bookingId rb)) \<longrightarrow>
      createReview u rb s =
        (Response 400 (Message ''Review already exists for this booking''), s)) \<and>
   (statusCode (fst (createReview u rb s)) = 201 \<longrightarrow>
      createReview u rb (snd (createReview u rb s)) =
        (Response 400 (Message ''Review already exists for this booking''),
         snd (createReview u rb s))) \<and>
   ((\<forall>k. length (filter (\<lambda>r. r_booking r = k) (reviews s)) \<le> 1) \<longrightarrow>
      (\<forall>k. length (filter (\<lambda>r. r_booking r = k) (reviews (snd (createReview u rb s)))) \<le> 1)) \<and>
   interleave [0, 0, 0] [(u, rb, AwaitBooking)] s =
     ([(u, rb, Replied (fst (createReview u rb s)))], snd (createReview u rb s))"
proof (intro conjI)
  show "interleave [0, 0, 0] [(u, rb, AwaitBooking)] s =
     ([(u, rb, Replied (fst (createReview u rb s)))], snd (createReview u rb s))"
    by (simp add: createReview_def advance_def Let_def split: option.splits)
next
  show "statusCode (fst (createReview u rb s)) = 201 \<longleftrightarrow>
      validReviewBody rb \<and> (\<exists>b\<in>set (bookings s). matching u rb b) \<and>
      (\<forall>r\<in>set (reviews s). r_booking r \<noteq> the (rb_bookingId rb))"
    by (auto simp: createReview_cases split: if_splits)
next
  show "statusCode (fst (createReview u rb s)) = 201 \<longrightarrow>
      (\<exists>r. reviews (snd (createReview u rb s)) = reviews s @ [r] \<and>
           r_booking r = the (rb_bookingId rb) \<and> r_guest r = u_id u \<and>
           r_property r = the (rb_propertyId rb) \<and> 1 \<le> rating r \<and> rating r \<le> 5)"
    using newReview_fields [of rb "nextId s" u]
    by (auto simp: createReview_cases split: if_splits)
next
  show "statusCode (fst (createReview u rb s)) \<noteq> 201 \<longrightarrow> snd (createReview u rb s) = s"
    by (auto simp: createReview_cases split: if_splits)
next
  show "validReviewBody rb \<and> (\<exists>b\<in>set (bookings s). matching u rb b) \<and>
    (\<exists>r\<in>set (reviews s). r_booking r = the (rb_bookingId rb)) \<longrightarrow>
      createReview u rb s =
        (Response 400 (Message ''Review already exists for this booking''), s)"
    by (auto simp: createReview_cases split: if_splits)
next
  show "statusCode (fst (createReview u rb s)) = 201 \<longrightarrow>
      createReview u rb (snd (createReview u rb s)) =
        (Response 400 (Message ''Review already exists for this booking''),
         snd (createReview u rb s))"
  proof
    assume a: "statusCode (fst (createReview u rb s)) = 201"
    then have v: "validReviewBody rb" and m: "\<exists>b\<in>set (bookings s). matching u rb b"
      and n: "\<not> (\<exists>r\<in>set (reviews s). r_booking r = the (rb_bookingId rb))"
      by (auto simp: createReview_cases split: if_splits)
    define s' where "s' = s\<lparr>reviews := reviews s @ [newReview (nextId s) u rb],
        nextId := Suc (nextId s)\<rparr>"
    have s': "snd (createReview u rb s) = s'"
      using v m n by (simp add: createReview_cases s'_def)
    have "\<exists>b\<in>set (bookings s'). matching u rb b"
      using m by (simp add: s'_def)
    moreover have "\<exists>r\<in>set (reviews s'). r_booking r = the (rb_bookingId rb)"
      using newReview_fields(1) [OF v] by (simp add: s'_def)
    ultimately have "createReview u rb s' =
        (Response 400 (Message ''Review already exists for this booking''), s')"
      using v by (simp add: createReview_cases [of u rb s'])
    with s' show "createReview u rb (snd (createReview u rb s)) =
        (Response 400 (Message ''Review already exists for this booking''),
         snd (createReview u rb s))"
      by simp
  qed
next
  show "(\<forall>k. length (filter (\<lambda>r. r_booking r = k) (reviews s)) \<le> 1) \<longrightarrow>
      (\<forall>k. length (filter (\<lambda>r. r_booking r = k) (reviews (snd (createReview u rb s)))) \<le> 1)"
  proof (intro impI allI)
    fix k
    assume inv: "\<forall>k. length (filter (\<lambda>r. r_booking r = k) (reviews s)) \<le> 1"
    show "length (filter (\<lambda>r. r_booking r = k) (reviews (snd (createReview u rb s)))) \<le> 1"
    proof (cases "statusCode (fst (createReview u rb s)) = 201")
      case False
      then have "snd (createReview u rb s) = s"
        by (auto simp: createReview_cases split: if_splits)
      with inv show ?thesis by simp
    next
      case True
      then have v: "validReviewBody rb"
        and n: "\<forall>r\<in>set (reviews s). r_booking r \<noteq> the (rb_bookingId rb)"
        and e: "reviews (snd (createReview u rb s)) = reviews s @ [newReview (nextId s) u rb]"
        by (auto simp: createReview_cases split: if_splits)
      show ?thesis
      proof (cases "k = the (rb_bookingId rb)")
        case True
        with n have "filter (\<lambda>r. r_booking r = k) (reviews s) = []"
          by (simp add: filter_empty_conv)
        with e show ?thesis by simp
      next
        case False
        with newReview_fields(1) [OF v, of "nextId s" u]
        have "filter (\<lambda>r. r_booking r = k) (reviews (snd (createReview u rb s)))
            = filter (\<lambda>r. r_booking r = k) (reviews s)"
          by (simp add: e)
        with inv show ?thesis by simp
      qed
    qed
  qed
qed

theorem createReview_at_most_once_witness:
  "createReview (exUser 2 ''guest'') exReviewBody (exState [exProperty 100 []] [exCompleted] []) =
     (Response 201 (ReviewCreated (newReview 100 (exUser 2 ''guest'') exReviewBody)),
      (exState [exProperty 100 []] [exCompleted] [newReview 100 (exUser 2 ''guest'') exReviewBody])
        \<lparr>nextId := 101\<rparr>) \<and>
   createReview (exUser 2 ''guest'') exReviewBody
       (snd (createReview (exUser 2 ''guest'') exReviewBody
          (exState [exProperty 100 []] [exCompleted] []))) =
     (Response 400 (Message ''Review already exists for this booking''),
      snd (createReview (exUser 2 ''guest'') exReviewBody
          (exState [exProperty 100 []] [exCompleted] []))) \<and>
   rating (newReview 100 (exUser 2 ''guest'') exReviewBody) = 4"
proof -
  have a: "createReview (exUser 2 ''guest'') exReviewBody (exState [exProperty 100 []] [exCompleted] []) =
     (Response 201 (ReviewCreated (newReview 100 (exUser 2 ''guest'') exReviewBody)),
      (exState [exProperty 100 []] [exCompleted] [newReview 100 (exUser 2 ''guest'') exReviewBody])
        \<lparr>nextId := 101\<rparr>)"
    by (simp add: createReview_def validReviewBody_def exReviewBody_def exCompleted_def
        newBooking_def ex_state_defs Let_def)
  have b: "rating (newReview 100 (exUser 2 ''guest'') exReviewBody) = 4"
    by (simp add: newReview_def exReviewBody_def)
  from a have "statusCode (fst (createReview (exUser 2 ''guest'') exReviewBody
      (exState [exProperty 100 []] [exCompleted] []))) = 201"
    by simp
  with createReview_at_most_once [of "exUser 2 ''guest''" exReviewBody
      "exState [exProperty 100 []] [exCompleted] []"] a b
  show ?thesis by blast
qed

lemma updateFirst_split:
  assumes "find P ds = Some d"
  shows "\<exists>ys zs. ds = ys @ d # zs \<and> (\<forall>y\<in>set ys. \<not> P y) \<and> updateFirst P f ds = ys @ f d # zs"
  using assms
proof (induction ds)
  case Nil
  then show ?case by simp
next
  case (Cons a ds)
  show ?case
  proof (cases "P a")
    case True
    with Cons.prems have "a = d" by simp
    with True have "a # ds = [] @ d # ds \<and> (\<forall>y\<in>set []. \<not> P y) \<and>
        updateFirst P f (a # ds) = [] @ f d # ds"
      by simp
    then show ?thesis by blast
  next
    case False
    with Cons.prems have "find P ds = Some d" by simp
    from Cons.IH [OF this] obtain ys zs where "ds = ys @ d # zs"
      and "\<forall>y\<in>set ys. \<not> P y" and "updateFirst P f ds = ys @ f d # zs"
      by blast
    with False have "a # ds = (a # ys) @ d # zs \<and> (\<forall>y\<in>set (a # ys). \<not> P y) \<and>
        updateFirst P f (a # ds) = (a # ys) @ f d # zs"
      by simp
    then show ?thesis by blast
  qed
qed

text \<open>
  C7: when the booking is found for the requesting guest, the gateway reports the payment
  intent as succeeded and the property exists, the request succeeds, the stored booking
  becomes confirmed and paid, and the property's availability list gains as its last
  entry the window from check-in to check-out marked unavailable. The entries already
  there, the other fields of the property, the other properties and bookings, and the
  other collections are unchanged.
\<close>

theorem confirmBooking_effect:
  assumes "find (\<lambda>b. b_id b = i) (bookings s) = Some b0"
    and "b_guest b0 = u_id u"
    and "stripeRetrieve x (paymentIntentId b0) = Inr intent"
    and "pi_status intent = ''succeeded''"
    and "find (\<lambda>q. p_id q = b_property b0) (properties s) = Some p"
  shows "\<exists>bs1 bs2 ps1 ps2 s'.
     confirmBooking x u (Some i) s =
       (Response 200 (BookingConfirmed ''Booking confirmed successfully''
          (b0\<lparr>status := ''confirmed'', paymentStatus := ''paid'',
              transactionId := Some (pi_id intent)\<rparr>)), s') \<and>
     bookings s = bs1 @ b0 # bs2 \<and>
     bookings s' = bs1 @ b0\<lparr>status := ''confirmed'', paymentStatus := ''paid'',
                           transactionId := Some (pi_id intent)\<rparr> # bs2 \<and>
     properties s = ps1 @ p # ps2 \<and>
     properties s' =
       ps1 @ p\<lparr>availability := availability p @
                  [\<lparr> startDate = checkIn b0, endDate = checkOut b0, isAvailable = False \<rparr>]\<rparr> # ps2 \<and>
     users s' = users s \<and> hosts s' = hosts s \<and> reviews s' = reviews s \<and> nextId s' = nextId s"
proof -
  from find_Some_iff [THEN iffD1, OF assms(1)] have id0: "b_id b0 = i" by blast
  from find_Some_iff [THEN iffD1, OF assms(5)] have idp: "p_id p = b_property b0" by blast
  from updateFirst_split [OF assms(1), of "\<lambda>d. confirmed b0 intent"]
  obtain bs1 bs2 where b1: "bookings s = bs1 @ b0 # bs2"
    and b2: "updateFirst (\<lambda>b. b_id b = i) (\<lambda>d. confirmed b0 intent) (bookings s)
              = bs1 @ confirmed b0 intent # bs2"
    by blast
  from updateFirst_split [OF assms(5), of "pushAvailability (unavailable (confirmed b0 intent))"]
  obtain ps1 ps2 where p1: "properties s = ps1 @ p # ps2"
    and p2: "updateFirst (\<lambda>q. p_id q = b_property b0)
               (pushAvailability (unavailable (confirmed b0 intent))) (properties s)
              = ps1 @ pushAvailability (unavailable (confirmed b0 intent)) p # ps2"
    by blast
  have e: "pushAvailability (unavailable (confirmed b0 intent)) p =
      p\<lparr>availability := availability p @
            [\<lparr> startDate = checkIn b0, endDate = checkOut b0, isAvailable = False \<rparr>]\<rparr>"
    by (simp add: pushAvailability_def unavailable_def confirmed_def)
  define s' where "s' = s\<lparr>bookings := bs1 @ confirmed b0 intent # bs2,
      properties := ps1 @ pushAvailability (unavailable (confirmed b0 intent)) p # ps2,
      console := console s @
        (case twilioCreate x (phone u)
                (BookingConfirmationSms (title p) (checkIn b0) (checkOut b0) (totalAmount b0)) of
           Inl e \<Rightarrow> [''Twilio error: '' @ e, ''SMS sending failed: Failed to send SMS'']
         | Inr r \<Rightarrow> [])\<rparr>"
  have c: "confirmBooking x u (Some i) s =
      (Response 200 (BookingConfirmed ''Booking confirmed successfully'' (confirmed b0 intent)), s')"
    using confirmBooking_paid [OF assms] b2 p2 id0 idp by (simp add: s'_def)
  have "confirmBooking x u (Some i) s =
       (Response 200 (BookingConfirmed ''Booking confirmed successfully''
          (b0\<lparr>status := ''confirmed'', paymentStatus := ''paid'',
              transactionId := Some (pi_id intent)\<rparr>)), s') \<and>
     bookings s = bs1 @ b0 # bs2 \<and>
     bookings s' = bs1 @ b0\<lparr>status := ''confirmed'', paymentStatus := ''paid'',
                           transactionId := Some (pi_id intent)\<rparr> # bs2 \<and>
     properties s = ps1 @ p # ps2 \<and>
     properties s' =
       ps1 @ p\<lparr>availability := availability p @
                  [\<lparr> startDate = checkIn b0, endDate = checkOut b0, isAvailable = False \<rparr>]\<rparr> # ps2 \<and>
     users s' = users s \<and> hosts s' = hosts s \<and> reviews s' = reviews s \<and> nextId s' = nextId s"
    using c b1 p1 e by (simp add: s'_def confirmed_def)
  then show ?thesis by blast
qed

theorem confirmBooking_effect_witness:
  "fst (confirmBooking exExternals (exUser 2 ''guest'') (Some 50)
          (exState [exListed] [exPending] [])) =
     Response 200 (BookingConfirmed ''Booking confirmed successfully''
       (exPending\<lparr>status := ''confirmed'', paymentStatus := ''paid'',
           transactionId := Some ''pi_1''\<rparr>)) \<and>
   bookings (snd (confirmBooking exExternals (exUser 2 ''guest'') (Some 50)
          (exState [exListed] [exPending] []))) =
     [exPending\<lparr>status := ''confirmed'', paymentStatus := ''paid'',
         transactionId := Some ''pi_1''\<rparr>] \<and>
   properties (snd (confirmBooking exExternals (exUser 2 ''guest'') (Some 50)
          (exState [exListed] [exPending] []))) =
     [exListed\<lparr>availability :=
        [\<lparr> startDate = day 0, endDate = day 30, isAvailable = True \<rparr>,
         \<lparr> startDate = day 1, endDate = day 5, isAvailable = False \<rparr>]\<rparr>]"
  using confirmBooking_effect [of 50 "exState [exListed] [exPending] []" exPending
      "exUser 2 ''guest''" exExternals "exIntent\<lparr>pi_status := ''succeeded''\<rparr>" exListed]
  by (simp add: ex_defs ex_num ex_state_defs exPending_def exListed_def newBooking_def confirm_defs Let_def)

text \<open>
  Two requests of the same guest for the same booking that overlap: both look for a
  review before either saves, and both save. Two reviews then refer to booking 50.
\<close>

theorem concurrent_reviews_counterexample:
  "reviews (snd (interleave [0, 0, 1, 1, 0, 1]
       [(exUser 2 ''guest'', exReviewBody, AwaitBooking),
        (exUser 2 ''guest'', exReviewBody, AwaitBooking)]
       (exState [exProperty 100 []] [exCompleted] []))) =
     [newReview 100 (exUser 2 ''guest'') exReviewBody,
      newReview 101 (exUser 2 ''guest'') exReviewBody] \<and>
   r_booking (newReview 100 (exUser 2 ''guest'') exReviewBody) = 50 \<and>
   r_booking (newReview 101 (exUser 2 ''guest'') exReviewBody) = 50 \<and>
   fst (interleave [0, 0, 1, 1, 0, 1]
       [(exUser 2 ''guest'', exReviewBody, AwaitBooking),
        (exUser 2 ''guest'', exReviewBody, AwaitBooking)]
       (exState [exProperty 100 []] [exCompleted] [])) =
     [(exUser 2 ''guest'', exReviewBody,
       Replied (Response 201 (ReviewCreated (newReview 100 (exUser 2 ''guest'') exReviewBody)))),
      (exUser 2 ''guest'', exReviewBody,
       Replied (Response 201 (ReviewCreated (newReview 101 (exUser 2 ''guest'') exReviewBody))))]"
  by (simp add: advance_def validReviewBody_def exReviewBody_def exCompleted_def newBooking_def
      newReview_def ex_state_defs Let_def)

subsection \<open>Failures of the external services\<close>

lemma find_updateFirst:
  assumes "find P ds = Some d" and "P (f d)"
  shows "find P (updateFirst P f ds) = Some (f d)"
  using assms by (induction ds) (auto split: if_splits)

lemma confirmBooking_sms_independent:
  "fst (confirmBooking (x\<lparr>twilioCreate := t\<rparr>) u bid s) = fst (confirmBooking x u bid s) \<and>
   documents (snd (confirmBooking (x\<lparr>twilioCreate := t\<rparr>) u bid s)) =
     documents (snd (confirmBooking x u bid s))"
proof (cases bid)
  case None
  then show ?thesis by (simp add: confirmBooking_def)
next
  case (Some i)
  show ?thesis
  proof (cases "find (\<lambda>b. b_id b = i) (bookings s)")
    case None
    with Some show ?thesis by (simp add: confirmBooking_def)
  next
    case b0: (Some b0)
    show ?thesis
    proof (cases "stripeRetrieve x (paymentIntentId b0)")
      case (Inl e)
      with Some b0 show ?thesis
        by (simp add: confirmBooking_def confirmPaymentIntent_def)
    next
      case (Inr intent)
      then have Inr': "stripeRetrieve (x\<lparr>twilioCreate := t\<rparr>) (paymentIntentId b0) = Inr intent"
        by simp
      show ?thesis
      proof (cases "b_guest b0 = u_id u \<and> pi_status intent = ''succeeded''")
        case False
        with Some b0 Inr show ?thesis
          by (auto simp: confirmBooking_def confirmPaymentIntent_def)
      next
        case True
        then have g: "b_guest b0 = u_id u" and st: "pi_status intent = ''succeeded''"
          by simp_all
        show ?thesis
        proof (cases "find (\<lambda>p. p_id p = b_property b0) (properties s)")
          case None
          from confirmBooking_paid_no_property [OF b0 g Inr st None]
            confirmBooking_paid_no_property [OF b0 g Inr' st None] Some
          show ?thesis by simp
        next
          case p: (Some p)
          from confirmBooking_paid [OF b0 g Inr st p]
            confirmBooking_paid [OF b0 g Inr' st p] Some
          show ?thesis by (simp add: documents_def)
        qed
      qed
    qed
  qed
qed

text \<open>
  C9: in the confirmation handler the outcome of the SMS send changes neither the
  response nor the document store. When the send fails on the success path the request
  still answers 200, the booking is stored as confirmed, the property holds the new
  unavailable window, and the failure is logged on the console. A failure of the payment
  service (when the booking is confirmed or created) and a failure of the mail service
  (in registration and in the password-reset request) make the request fail with status
  500, ``Server error''.
\<close>

theorem sms_failure_swallowed:
  "(fst (confirmBooking (x\<lparr>twilioCreate := t\<rparr>) u bid s) = fst (confirmBooking x u bid s) \<and>
    documents (snd (confirmBooking (x\<lparr>twilioCreate := t\<rparr>) u bid s)) =
      documents (snd (confirmBooking x u bid s))) \<and>
   (find (\<lambda>b. b_id b = i) (bookings s) = Some b0 \<and> b_guest b0 = u_id u \<and>
    stripeRetrieve x (paymentIntentId b0) = Inr intent \<and> pi_status intent = ''succeeded'' \<and>
    find (\<lambda>q. p_id q = b_property b0) (properties s) = Some p \<and>
    twilioCreate x (phone u)
      (BookingConfirmationSms (title p) (checkIn b0) (checkOut b0) (totalAmount b0)) = Inl err
    \<longrightarrow>
      statusCode (fst (confirmBooking x u (Some i) s)) = 200 \<and>
      find (\<lambda>b. b_id b = i) (bookings (snd (confirmBooking x u (Some i) s))) =
        Some (confirmed b0 intent) \<and>
      find (\<lambda>q. p_id q = b_property b0) (properties (snd (confirmBooking x u (Some i) s))) =
        Some (p\<lparr>availability := availability p @ [unavailable b0]\<rparr>) \<and>
      console (snd (confirmBooking x u (Some i) s)) =
        console s @ [''Twilio error: '' @ err, ''SMS sending failed: Failed to send SMS'']) \<and>
   (find (\<lambda>b. b_id b = i) (bookings s) = Some b0 \<and> b_guest b0 = u_id u \<and>
    stripeRetrieve x (paymentIntentId b0) = Inl err
    \<longrightarrow>
      fst (confirmBooking x u (Some i) s) = Response 500 (Message ''Server error'') \<and>
      documents (snd (confirmBooking x u (Some i) s)) = documents s) \<and>
   (validBookingBody rb \<and>
    find (\<lambda>q. p_id q = the (bb_propertyId rb)) (properties s) = Some p \<and>
    stripeCreate x
      (floor (times64 (fst (bookingPrice p (the (bb_checkIn rb)) (the (bb_checkOut rb)))) 100 + 1 / 2))
      ''usd'' = Inl err
    \<longrightarrow>
      fst (createBooking x u rb s) = Response 500 (Message ''Server error'') \<and>
      documents (snd (createBooking x u rb s)) = documents s) \<and>
   (validRegisterBody x gb \<and> find (\<lambda>v. email v = reg_email gb) (users s) = None \<and>
    sendMail x (reg_email gb)
      (VerificationMail (jwtSign x (nextId s) (JWT_SECRET e @ stored (reg_password gb)))
         (reg_firstName gb)) = Inl err
    \<longrightarrow>
      fst (register x e stored gb s) = Response 500 (Message ''Server error'')) \<and>
   (isEmail x addr \<and> find (\<lambda>v. email v = addr) (users s) = Some u0 \<and>
    sendMail x (email u0)
      (PasswordResetMail (jwtSign x (u_id u0) (JWT_SECRET e @ password u0)) (firstName u0)) = Inl err
    \<longrightarrow>
      fst (forgotPassword x e now addr s) = Response 500 (Message ''Server error''))"
proof (intro conjI impI)
  show "fst (confirmBooking (x\<lparr>twilioCreate := t\<rparr>) u bid s) = fst (confirmBooking x u bid s)"
    and "documents (snd (confirmBooking (x\<lparr>twilioCreate := t\<rparr>) u bid s)) =
      documents (snd (confirmBooking x u bid s))"
    using confirmBooking_sms_independent [where x = x and t = t and u = u and bid = bid and s = s]
    by simp_all
next
  assume a: "find (\<lambda>b. b_id b = i) (bookings s) = Some b0 \<and> b_guest b0 = u_id u \<and>
    stripeRetrieve x (paymentIntentId b0) = Inr intent \<and> pi_status intent = ''succeeded'' \<and>
    find (\<lambda>q. p_id q = b_property b0) (properties s) = Some p \<and>
    twilioCreate x (phone u)
      (BookingConfirmationSms (title p) (checkIn b0) (checkOut b0) (totalAmount b0)) = Inl err"
  then have fb: "find (\<lambda>b. b_id b = i) (bookings s) = Some b0"
    and fp: "find (\<lambda>q. p_id q = b_property b0) (properties s) = Some p"
    and tw: "twilioCreate x (phone u)
      (BookingConfirmationSms (title p) (checkIn b0) (checkOut b0) (totalAmount b0)) = Inl err"
    by simp_all
  from find_Some_iff [THEN iffD1, OF fb] have id0: "b_id b0 = i" by blast
  from find_Some_iff [THEN iffD1, OF fp] have idp: "p_id p = b_property b0" by blast
  from a have c: "confirmBooking x u (Some i) s =
     (Response 200 (BookingConfirmed ''Booking confirmed successfully'' (confirmed b0 intent)),
      s\<lparr>bookings := updateFirst (\<lambda>d. b_id d = b_id b0) (\<lambda>d. confirmed b0 intent) (bookings s),
        properties := updateFirst (\<lambda>d. p_id d = p_id p)
            (pushAvailability (unavailable (confirmed b0 intent))) (properties s),
        console := console s @
          [''Twilio error: '' @ err, ''SMS sending failed: Failed to send SMS'']\<rparr>)"
    using confirmBooking_paid [where i = i and s = s and ?b0.0 = b0 and u = u and x = x
        and intent = intent and p = p] by simp
  show "statusCode (fst (confirmBooking x u (Some i) s)) = 200"
    by (simp add: c)
  show "find (\<lambda>b. b_id b = i) (bookings (snd (confirmBooking x u (Some i) s))) =
        Some (confirmed b0 intent)"
    using find_updateFirst [OF fb, of "\<lambda>d. confirmed b0 intent"] id0
    by (simp add: c confirmed_def)
  show "find (\<lambda>q. p_id q = b_property b0) (properties (snd (confirmBooking x u (Some i) s))) =
        Some (p\<lparr>availability := availability p @ [unavailable b0]\<rparr>)"
    using find_updateFirst [OF fp, of "pushAvailability (unavailable (confirmed b0 intent))"] idp
    by (simp add: c confirmed_def pushAvailability_def unavailable_def)
  show "console (snd (confirmBooking x u (Some i) s)) =
        console s @ [''Twilio error: '' @ err, ''SMS sending failed: Failed to send SMS'']"
    by (simp add: c)
next
  assume a: "find (\<lambda>b. b_id b = i) (bookings s) = Some b0 \<and> b_guest b0 = u_id u \<and>
    stripeRetrieve x (paymentIntentId b0) = Inl err"
  then show "fst (confirmBooking x u (Some i) s) = Response 500 (Message ''Server error'')"
    and "documents (snd (confirmBooking x u (Some i) s)) = documents s"
    by (simp_all add: confirmBooking_def confirmPaymentIntent_def serverError_def
        consoleError_def documents_def)
next
  assume a: "validBookingBody rb \<and>
    find (\<lambda>q. p_id q = the (bb_propertyId rb)) (properties s) = Some p \<and>
    stripeCreate x
      (floor (times64 (fst (bookingPrice p (the (bb_checkIn rb)) (the (bb_checkOut rb)))) 100 + 1 / 2))
      ''usd'' = Inl err"
  then show "fst (createBooking x u rb s) = Response 500 (Message ''Server error'')"
    and "documents (snd (createBooking x u rb s)) = documents s"
    using createBooking_found [where rb = rb and s = s and p = p and x = x and u = u]
    by (simp_all add: documents_def)
next
  assume "validRegisterBody x gb \<and> find (\<lambda>v. email v = reg_email gb) (users s) = None \<and>
    sendMail x (reg_email gb)
      (VerificationMail (jwtSign x (nextId s) (JWT_SECRET e @ stored (reg_password gb)))
         (reg_firstName gb)) = Inl err"
  then show "fst (register x e stored gb s) = Response 500 (Message ''Server error'')"
    by (simp add: register_def newUser_def sendVerificationEmail_def serverError_def Let_def)
next
  assume "isEmail x addr \<and> find (\<lambda>v. email v = addr) (users s) = Some u0 \<and>
    sendMail x (email u0)
      (PasswordResetMail (jwtSign x (u_id u0) (JWT_SECRET e @ password u0)) (firstName u0)) = Inl err"
  then show "fst (forgotPassword x e now addr s) = Response 500 (Message ''Server error'')"
    by (simp add: forgotPassword_def sendPasswordResetEmail_def serverError_def Let_def)
qed

theorem sms_failure_swallowed_witness:
  "statusCode (fst (confirmBooking exExternals (exUser 2 ''guest'') (Some 50)
          (exState [exListed] [exPending] []))) = 200 \<and>
   console (snd (confirmBooking exExternals (exUser 2 ''guest'') (Some 50)
          (exState [exListed] [exPending] []))) =
     [''Twilio error: unreachable'', ''SMS sending failed: Failed to send SMS''] \<and>
   fst (confirmBooking (exExternals\<lparr>stripeRetrieve := (\<lambda>k. Inl ''timeout'')\<rparr>)
          (exUser 2 ''guest'') (Some 50) (exState [exListed] [exPending] [])) =
     Response 500 (Message ''Server error'') \<and>
   fst (createBooking exExternals (exUser 2 ''guest'') (exBookingBody 3 1)
          (exState [exListed] [exPending] [])) =
     Response 500 (Message ''Server error'') \<and>
   fst (register exExternals exEnv (\<lambda>pw. pw) exRegisterBody (exState [exListed] [exPending] [])) =
     Response 500 (Message ''Server error'') \<and>
   fst (forgotPassword exExternals exEnv 0 ''a@b.c'' (exState [exListed] [exPending] [])) =
     Response 500 (Message ''Server error'')"
proof -
  let ?s = "exState [exListed] [exPending] []"
  let ?u = "exUser 2 ''guest''"
  let ?y = "exExternals\<lparr>stripeRetrieve := (\<lambda>k. Inl ''timeout'')\<rparr>"
  have fb: "find (\<lambda>b. b_id b = 50) (bookings ?s) = Some exPending"
    by (simp add: ex_all_defs ex_num)
  have g: "b_guest exPending = u_id ?u"
    by (simp add: ex_all_defs ex_num)
  have fp: "find (\<lambda>q. p_id q = b_property exPending) (properties ?s) = Some exListed"
    by (simp add: ex_all_defs ex_num)
  have sr: "stripeRetrieve exExternals (paymentIntentId exPending) =
      Inr (exIntent\<lparr>pi_status := ''succeeded''\<rparr>)"
    by (simp add: ex_all_defs ex_num)
  have st: "pi_status (exIntent\<lparr>pi_status := ''succeeded''\<rparr>) = ''succeeded''"
    by simp
  have tw: "twilioCreate exExternals (phone ?u)
      (BookingConfirmationSms (title exListed) (checkIn exPending) (checkOut exPending)
         (totalAmount exPending)) = Inl ''unreachable''"
    by (simp add: ex_all_defs ex_num)
  have c1: "console ?s = []"
    by (simp add: ex_all_defs ex_num)
  from sms_failure_swallowed [where x = exExternals and u = ?u and i = 50 and s = ?s
      and ?b0.0 = exPending and intent = "exIntent\<lparr>pi_status := ''succeeded''\<rparr>"
      and p = exListed and err = "''unreachable''"] fb g fp sr st tw
  have a1: "statusCode (fst (confirmBooking exExternals ?u (Some 50) ?s)) = 200"
    and a2: "console (snd (confirmBooking exExternals ?u (Some 50) ?s)) =
      console ?s @ [''Twilio error: '' @ ''unreachable'', ''SMS sending failed: Failed to send SMS'']"
    by blast+
  have sr': "stripeRetrieve ?y (paymentIntentId exPending) = Inl ''timeout''"
    by simp
  have fb': "find (\<lambda>b. b_id b = 50) (bookings ?s) = Some exPending \<and> b_guest exPending = u_id ?u \<and>
      stripeRetrieve ?y (paymentIntentId exPending) = Inl ''timeout''"
    using fb g sr' by blast
  from sms_failure_swallowed [where x = ?y and u = ?u and i = 50 and s = ?s
      and ?b0.0 = exPending and err = "''timeout''"] fb'
  have a3: "fst (confirmBooking ?y ?u (Some 50) ?s) = Response 500 (Message ''Server error'')"
    by blast
  have v: "validBookingBody (exBookingBody 3 1)"
    by (simp add: ex_all_defs ex_num)
  have fq: "find (\<lambda>q. p_id q = the (bb_propertyId (exBookingBody 3 1))) (properties ?s) = Some exListed"
    by (simp add: ex_all_defs ex_num)
  have sc: "stripeCreate exExternals
      (floor (times64 (fst (bookingPrice exListed (the (bb_checkIn (exBookingBody 3 1)))
         (the (bb_checkOut (exBookingBody 3 1))))) 100 + 1 / 2)) ''usd'' = Inl ''amount_too_small''"
    by (simp add: ex_all_defs ex_num)
  from sms_failure_swallowed [where x = exExternals and u = ?u and s = ?s
      and rb = "exBookingBody 3 1" and p = exListed and err = "''amount_too_small''"] v fq sc
  have a4: "fst (createBooking exExternals ?u (exBookingBody 3 1) ?s) =
      Response 500 (Message ''Server error'')"
    by blast
  have r1: "validRegisterBody exExternals exRegisterBody"
    by (simp add: ex_all_defs ex_num)
  have r2: "find (\<lambda>v. email v = reg_email exRegisterBody) (users ?s) = None"
    by (simp add: ex_all_defs ex_num)
  have r3: "sendMail exExternals (reg_email exRegisterBody)
      (VerificationMail (jwtSign exExternals (nextId ?s)
          (JWT_SECRET exEnv @ (\<lambda>pw. pw) (reg_password exRegisterBody)))
         (reg_firstName exRegisterBody)) = Inl ''connection refused''"
    by (simp add: ex_all_defs ex_num)
  from sms_failure_swallowed [where x = exExternals and e = exEnv and stored = "\<lambda>pw. pw"
      and gb = exRegisterBody and s = ?s and err = "''connection refused''"] r1 r2 r3
  have a5: "fst (register exExternals exEnv (\<lambda>pw. pw) exRegisterBody ?s) =
      Response 500 (Message ''Server error'')"
    by blast
  have f1: "isEmail exExternals ''a@b.c''"
    by (simp add: ex_all_defs ex_num)
  have f2: "find (\<lambda>v. email v = ''a@b.c'') (users ?s) = Some ?u"
    by (simp add: ex_all_defs ex_num)
  have f3: "sendMail exExternals (email ?u)
      (PasswordResetMail (jwtSign exExternals (u_id ?u) (JWT_SECRET exEnv @ password ?u))
         (firstName ?u)) = Inl ''connection refused''"
    by (simp add: ex_all_defs ex_num)
  from sms_failure_swallowed [where x = exExternals and e = exEnv and s = ?s
      and addr = "''a@b.c''" and ?u0.0 = ?u and now = 0 and err = "''connection refused''"]
    f1 f2 f3
  have a6: "fst (forgotPassword exExternals exEnv 0 ''a@b.c'' ?s) =
      Response 500 (Message ''Server error'')"
    by blast
  from a1 a2 a3 a4 a5 a6 c1 show ?thesis by simp
qed

subsection \<open>Host authentication\<close>

lemma authenticateHost_cases:
  "authenticateHost x e auth s =
     (if auth = None \<or> bearerToken auth = Some []
        then Rejected (Response 401 (Message ''Access denied. No token provided.''))
      else case jwtVerify x (the (bearerToken auth)) (JWT_SECRET e) of
          Inl err \<Rightarrow> Rejected (Response 401 (Message ''Token is not valid.''))
        | Inr i \<Rightarrow>
            (case findUserById i s of
               None \<Rightarrow> Rejected (Response 401 (Message ''Host access required.''))
             | Some v \<Rightarrow>
                 if role v = ''host'' \<or> role v = ''admin'' then Next v
                 else Rejected (Response 401 (Message ''Host access required.''))))"
  by (cases auth) (auto simp: authenticateHost_def bearerToken_def split: sum.splits option.splits)

text \<open>
  C10: the host middleware lets a request pass, as user \<open>u\<close>, exactly when the header
  carries a non-empty token, the token verifies against \<^verbatim>\<open>JWT_SECRET\<close> with the
  identifier of \<open>u\<close>, and the role of \<open>u\<close> is \<^verbatim>\<open>host\<close> or \<^verbatim>\<open>admin\<close>. It rejects
  exactly when the token is missing, fails verification, resolves to no user, or resolves
  to a user of another role, and every rejection has status 401. The admin secret plays
  no part.
\<close>

theorem authenticateHost_decision:
  "(authenticateHost x e auth s = Next u \<longleftrightarrow>
      (\<exists>h i. auth = Some h \<and> replaceFirst ''Bearer '' [] h \<noteq> [] \<and>
         jwtVerify x (replaceFirst ''Bearer '' [] h) (JWT_SECRET e) = Inr (Some i) \<and>
         find (\<lambda>v. u_id v = i) (users s) = Some u \<and>
         (role u = ''host'' \<or> role u = ''admin''))) \<and>
   ((\<exists>r. authenticateHost x e auth s = Rejected r) \<longleftrightarrow>
      auth = None \<or> bearerToken auth = Some [] \<or>
      (\<exists>err. jwtVerify x (the (bearerToken auth)) (JWT_SECRET e) = Inl err) \<or>
      (\<exists>i. jwtVerify x (the (bearerToken auth)) (JWT_SECRET e) = Inr i \<and>
           findUserById i s = None) \<or>
      (\<exists>i v. jwtVerify x (the (bearerToken auth)) (JWT_SECRET e) = Inr i \<and>
           findUserById i s = Some v \<and> role v \<noteq> ''host'' \<and> role v \<noteq> ''admin'')) \<and>
   (\<forall>r. authenticateHost x e auth s = Rejected r \<longrightarrow> statusCode r = 401) \<and>
   authenticateHost x (e\<lparr>JWT_ADMIN_SECRET := a\<rparr>) auth s = authenticateHost x e auth s"
proof (intro conjI)
  show "authenticateHost x e auth s = Next u \<longleftrightarrow>
      (\<exists>h i. auth = Some h \<and> replaceFirst ''Bearer '' [] h \<noteq> [] \<and>
         jwtVerify x (replaceFirst ''Bearer '' [] h) (JWT_SECRET e) = Inr (Some i) \<and>
         find (\<lambda>v. u_id v = i) (users s) = Some u \<and>
         (role u = ''host'' \<or> role u = ''admin''))"
    by (cases auth)
      (auto simp: authenticateHost_def bearerToken_def findUserById_def
        split: sum.splits option.splits)
next
  show "(\<exists>r. authenticateHost x e auth s = Rejected r) \<longleftrightarrow>
      auth = None \<or> bearerToken auth = Some [] \<or>
      (\<exists>err. jwtVerify x (the (bearerToken auth)) (JWT_SECRET e) = Inl err) \<or>
      (\<exists>i. jwtVerify x (the (bearerToken auth)) (JWT_SECRET e) = Inr i \<and>
           findUserById i s = None) \<or>
      (\<exists>i v. jwtVerify x (the (bearerToken auth)) (JWT_SECRET e) = Inr i \<and>
           findUserById i s = Some v \<and> role v \<noteq> ''host'' \<and> role v \<noteq> ''admin'')"
    by (auto simp: authenticateHost_cases split: sum.splits option.splits)
next
  show "\<forall>r. authenticateHost x e auth s = Rejected r \<longrightarrow> statusCode r = 401"
    by (auto simp: authenticateHost_cases split: sum.splits option.splits if_splits)
next
  show "authenticateHost x (e\<lparr>JWT_ADMIN_SECRET := a\<rparr>) auth s = authenticateHost x e auth s"
    by (simp add: authenticateHost_cases)
qed

theorem authenticateHost_decision_witness:
  "authenticateHost exExternals exEnv (Some ''Bearer t-admin'') (exState [] [] []) =
     Next (exUser 3 ''admin'') \<and>
   authenticateHost exExternals exEnv (Some ''Bearer t-guest'') (exState [] [] []) =
     Rejected (Response 401 (Message ''Host access required.'')) \<and>
   authenticateHost exExternals exEnv (Some ''Bearer a-admin'') (exState [] [] []) =
     Rejected (Response 401 (Message ''Token is not valid.'')) \<and>
   authenticateAdmin exExternals exEnv (Some ''Bearer a-admin'') (exState [] [] []) =
     Next (exUser 3 ''admin'') \<and>
   authenticateHost exExternals exEnv None (exState [] [] []) =
     Rejected (Response 401 (Message ''Access denied. No token provided.''))"
proof -
  let ?s = "exState [] [] []"
  have t: "replaceFirst ''Bearer '' [] ''Bearer t-admin'' = ''t-admin''"
    by simp
  have v: "jwtVerify exExternals ''t-admin'' (JWT_SECRET exEnv) = Inr (Some 3)"
    by (simp add: ex_all_defs ex_num)
  have f: "find (\<lambda>v. u_id v = 3) (users ?s) = Some (exUser 3 ''admin'')"
    by (simp add: ex_all_defs ex_num)
  have r: "role (exUser 3 ''admin'') = ''admin''"
    by (simp add: ex_all_defs ex_num)
  have "\<exists>h i. Some ''Bearer t-admin'' = Some h \<and> replaceFirst ''Bearer '' [] h \<noteq> [] \<and>
      jwtVerify exExternals (replaceFirst ''Bearer '' [] h) (JWT_SECRET exEnv) = Inr (Some i) \<and>
      find (\<lambda>v. u_id v = i) (users ?s) = Some (exUser 3 ''admin'') \<and>
      (role (exUser 3 ''admin'') = ''host'' \<or> role (exUser 3 ''admin'') = ''admin'')"
    using t v f r by (intro exI [of _ "''Bearer t-admin''"] exI [of _ 3]) simp
  with authenticateHost_decision [where x = exExternals and e = exEnv
      and auth = "Some ''Bearer t-admin''" and s = ?s and u = "exUser 3 ''admin''"]
  have a1: "authenticateHost exExternals exEnv (Some ''Bearer t-admin'') ?s =
      Next (exUser 3 ''admin'')"
    by blast
  have a2: "authenticateHost exExternals exEnv (Some ''Bearer t-guest'') ?s =
     Rejected (Response 401 (Message ''Host access required.''))"
    by (simp add: authenticateHost_def bearerToken_def findUserById_def ex_all_defs)
  have a3: "authenticateHost exExternals exEnv (Some ''Bearer a-admin'') ?s =
     Rejected (Response 401 (Message ''Token is not valid.''))"
    by (simp add: authenticateHost_def bearerToken_def findUserById_def ex_all_defs)
  have a4: "authenticateAdmin exExternals exEnv (Some ''Bearer a-admin'') ?s =
     Next (exUser 3 ''admin'')"
    by (simp add: authenticateAdmin_def bearerToken_def findUserById_def ex_all_defs)
  have a5: "authenticateHost exExternals exEnv None ?s =
     Rejected (Response 401 (Message ''Access denied. No token provided.''))"
    by (simp add: authenticateHost_def bearerToken_def)
  from a1 a2 a3 a4 a5 show ?thesis by blast
qed

end
